theory Spec2Isabelle
  imports Complex_Main "HOL-Library.Monad_Syntax"
begin

section \<open>JavaScript values\<close>

text \<open>
  The two forms (\<open>PeriodForm\<close>, \<open>ProfessorForm\<close>) are React components: a zod schema
  (\<open>formSchema\<close>), a submit handler (\<open>handleSubmit\<close>) and the dialog markup that wires
  them to two buttons. The embedding follows the TypeScript text; what the libraries do
  (zod 3, react-hook-form, the DOM) is written out as small HOL functions next to the
  place where the source uses them.

  A JavaScript string is a sequence of UTF-16 code units, and \<open>.length\<close> counts code
  units. A string is therefore a list of code units (natural numbers); \<open>js\<close> turns a
  Latin-1 literal into one.
\<close>

type_synonym jstring = "nat list"

definition js :: "string \<Rightarrow> jstring" where
  "js s = map of_char s"

text \<open>
  A JavaScript number is a double: not-a-number, an infinity, or a finite value. Finite
  doubles are rationals, and \<open><\<close> on doubles is the order of the rationals, so the
  comparisons of the schema are exact on \<open>Fin\<close>.
\<close>

datatype jsnum = NaN | NegInf | Fin rat | PosInf

fun num_lt :: "jsnum \<Rightarrow> jsnum \<Rightarrow> bool" where
  "num_lt NaN _ = False"
| "num_lt _ NaN = False"
| "num_lt _ NegInf = False"
| "num_lt NegInf _ = True"
| "num_lt PosInf _ = False"
| "num_lt (Fin a) PosInf = True"
| "num_lt (Fin a) (Fin b) = (a < b)"

text \<open>
  The values a form field can hold. A \<open>Date\<close> object carries a time value in
  milliseconds since the epoch, or is an invalid date (\<open>None\<close>).
\<close>

datatype js_value =
    JUndefined
  | JNull
  | JBool bool
  | JNum jsnum
  | JStr jstring
  | JDate "int option"

datatype js_error = TypeError

text \<open>
  \<open>Number(v)\<close>. The conversion of a string (ECMAScript's StringToNumber) is a
  parameter \<open>S\<close> of everything that coerces.
\<close>

fun Number_js :: "(jstring \<Rightarrow> jsnum) \<Rightarrow> js_value \<Rightarrow> jsnum" where
  "Number_js S JUndefined = NaN"
| "Number_js S JNull = Fin 0"
| "Number_js S (JBool b) = Fin (if b then 1 else 0)"
| "Number_js S (JNum n) = n"
| "Number_js S (JStr s) = S s"
| "Number_js S (JDate None) = NaN"
| "Number_js S (JDate (Some t)) = Fin (of_int t)"

text \<open>\<open>date > x\<close> for a valid \<open>Date\<close> on the left: both sides become numbers.\<close>

definition date_gt :: "(jstring \<Rightarrow> jsnum) \<Rightarrow> int \<Rightarrow> js_value \<Rightarrow> bool" where
  "date_gt S date x = num_lt (Number_js S x) (Fin (of_int date))"


section \<open>The zod primitives the schemas use\<close>

text \<open>
  A zod 3 schema parses a value to a status (valid, dirty, aborted) and a list of
  issues; a callback that raises makes the whole parse raise. An issue carries a code
  and the message given in the source (\<open>None\<close>: the library's default text).
\<close>

datatype issue_code =
  invalid_type | invalid_date | invalid_enum_value | invalid_string | too_small | too_big | custom

record zissue =
  kind :: issue_code
  message :: "jstring option"

datatype 'a zresult =
    ZValid 'a
  | ZDirty 'a "zissue list"
  | ZAborted "zissue list"
  | ZThrow js_error

fun issues_of :: "'a zresult \<Rightarrow> zissue list" where
  "issues_of (ZValid a) = []"
| "issues_of (ZDirty a is) = is"
| "issues_of (ZAborted is) = is"
| "issues_of (ZThrow e) = []"

fun thrown :: "'a zresult \<Rightarrow> js_error option" where
  "thrown (ZThrow e) = Some e"
| "thrown _ = None"

fun valid :: "'a zresult \<Rightarrow> 'a option" where
  "valid (ZValid a) = Some a"
| "valid _ = None"

text \<open>
  A check of a string or number schema (\<open>.min\<close>, \<open>.max\<close>, \<open>.regex\<close>, \<open>.email\<close>)
  runs only when the type test passed, and adds its issue when \<open>ok\<close> fails.
\<close>

fun z_check :: "('a \<Rightarrow> bool) \<Rightarrow> zissue \<Rightarrow> 'a zresult \<Rightarrow> 'a zresult" where
  "z_check ok iss (ZValid a) = (if ok a then ZValid a else ZDirty a [iss])"
| "z_check ok iss (ZDirty a is) = (if ok a then ZDirty a is else ZDirty a (is @ [iss]))"
| "z_check ok iss (ZAborted is) = ZAborted is"
| "z_check ok iss (ZThrow e) = ZThrow e"

text \<open>\<open>z.string({ required_error })\<close>: the message applies to \<open>undefined\<close> only.\<close>

fun z_string :: "jstring option \<Rightarrow> js_value \<Rightarrow> jstring zresult" where
  "z_string req (JStr s) = ZValid s"
| "z_string req JUndefined = ZAborted [\<lparr>kind = invalid_type, message = req\<rparr>]"
| "z_string req _ = ZAborted [\<lparr>kind = invalid_type, message = None\<rparr>]"

text \<open>\<open>.min(n, { message })\<close> on a string: \<open>input.data.length < n\<close> is too small.\<close>

definition min_length :: "nat \<Rightarrow> jstring \<Rightarrow> jstring zresult \<Rightarrow> jstring zresult" where
  "min_length n msg = z_check (\<lambda>s. \<not> length s < n) \<lparr>kind = too_small, message = Some msg\<rparr>"

text \<open>\<open>.regex(re, { message })\<close> and \<open>.email({ message })\<close>: \<open>re.test(input.data)\<close>.\<close>

definition z_regex :: "(jstring \<Rightarrow> bool) \<Rightarrow> jstring \<Rightarrow> jstring zresult \<Rightarrow> jstring zresult" where
  "z_regex test msg = z_check test \<lparr>kind = invalid_string, message = Some msg\<rparr>"

text \<open>\<open>z.number()\<close> rejects \<open>NaN\<close> as a wrong type; \<open>z.coerce.number()\<close> parses \<open>Number(input)\<close>.\<close>

fun z_number :: "js_value \<Rightarrow> jsnum zresult" where
  "z_number (JNum NaN) = ZAborted [\<lparr>kind = invalid_type, message = None\<rparr>]"
| "z_number (JNum n) = ZValid n"
| "z_number _ = ZAborted [\<lparr>kind = invalid_type, message = None\<rparr>]"

definition z_coerce_number :: "(jstring \<Rightarrow> jsnum) \<Rightarrow> js_value \<Rightarrow> jsnum zresult" where
  "z_coerce_number S v = z_number (JNum (Number_js S v))"

text \<open>\<open>.min(k)\<close> and \<open>.max(k)\<close> on a number are inclusive bounds.\<close>

definition num_min :: "rat \<Rightarrow> jsnum zresult \<Rightarrow> jsnum zresult" where
  "num_min k = z_check (\<lambda>n. \<not> num_lt n (Fin k)) \<lparr>kind = too_small, message = None\<rparr>"

definition num_max :: "rat \<Rightarrow> jsnum zresult \<Rightarrow> jsnum zresult" where
  "num_max k = z_check (\<lambda>n. \<not> num_lt (Fin k) n) \<lparr>kind = too_big, message = None\<rparr>"

text \<open>\<open>z.enum([...])\<close>.\<close>

fun z_enum :: "jstring list \<Rightarrow> js_value \<Rightarrow> jstring zresult" where
  "z_enum opts (JStr s) =
     (if s \<in> set opts then ZValid s
      else ZAborted [\<lparr>kind = invalid_enum_value, message = None\<rparr>])"
| "z_enum opts _ = ZAborted [\<lparr>kind = invalid_type, message = None\<rparr>]"

text \<open>\<open>z.date({ required_error })\<close>: a \<open>Date\<close> object whose time value is not \<open>NaN\<close>.\<close>

fun z_date :: "jstring \<Rightarrow> js_value \<Rightarrow> int zresult" where
  "z_date req (JDate (Some t)) = ZValid t"
| "z_date req (JDate None) = ZAborted [\<lparr>kind = invalid_date, message = None\<rparr>]"
| "z_date req JUndefined = ZAborted [\<lparr>kind = invalid_type, message = Some req\<rparr>]"
| "z_date req _ = ZAborted [\<lparr>kind = invalid_type, message = None\<rparr>]"

text \<open>\<open>z.boolean().default(false)\<close>: \<open>undefined\<close> is replaced by the default first.\<close>

fun z_boolean_default :: "bool \<Rightarrow> js_value \<Rightarrow> bool zresult" where
  "z_boolean_default d JUndefined = ZValid d"
| "z_boolean_default d (JBool b) = ZValid b"
| "z_boolean_default d _ = ZAborted [\<lparr>kind = invalid_type, message = None\<rparr>]"

text \<open>
  \<open>.refine(check, { message })\<close>. zod 3 runs the refinement on a value that parsed
  (valid or dirty) and calls \<open>check(val)\<close> with the value alone: a second parameter of
  the callback is \<open>undefined\<close>, written \<open>None\<close> here. A falsy result adds a
  \<open>custom\<close> issue, an exception leaves the parse.
\<close>

fun z_refine ::
  "('a \<Rightarrow> 'c option \<Rightarrow> js_error + bool) \<Rightarrow> jstring \<Rightarrow> 'a zresult \<Rightarrow> 'a zresult" where
  "z_refine check msg (ZValid a) =
     (case check a None of
        Inl e \<Rightarrow> ZThrow e
      | Inr ok \<Rightarrow> if ok then ZValid a else ZDirty a [\<lparr>kind = custom, message = Some msg\<rparr>])"
| "z_refine check msg (ZDirty a is) =
     (case check a None of
        Inl e \<Rightarrow> ZThrow e
      | Inr ok \<Rightarrow> if ok then ZDirty a is else ZDirty a (is @ [\<lparr>kind = custom, message = Some msg\<rparr>]))"
| "z_refine check msg (ZAborted is) = ZAborted is"
| "z_refine check msg (ZThrow e) = ZThrow e"

text \<open>
  \<open>z.object({...}).parseAsync\<close>, as \<open>zodResolver\<close> calls it: the parsed entity, or the
  issues keyed by field, or the exception a callback raised. react-hook-form calls the
  submit handler on the first outcome only.
\<close>

datatype 'v parse_outcome =
    Parsed 'v
  | Failed "(string \<times> zissue) list"
  | Thrown js_error

fun first_thrown :: "js_error option list \<Rightarrow> js_error option" where
  "first_thrown [] = None"
| "first_thrown (Some e # es) = Some e"
| "first_thrown (None # es) = first_thrown es"

definition at_field :: "string \<Rightarrow> 'a zresult \<Rightarrow> (string \<times> zissue) list" where
  "at_field key r = map (Pair key) (issues_of r)"

section \<open>PeriodForm: the schema\<close>

text \<open>
  The field mapping of the period form, one JavaScript value per field. The object that
  validation returns has the same fields (with \<open>year\<close> coerced and \<open>isActive\<close>
  defaulted), so one record serves for the raw mapping and for the validated entity.
\<close>

record period =
  pe_id :: js_value
  pe_name :: js_value
  pe_year :: js_value
  pe_trimester :: js_value
  pe_startDate :: js_value
  pe_endDate :: js_value
  pe_enrollmentStartDate :: js_value
  pe_enrollmentEndDate :: js_value
  pe_isActive :: js_value

text \<open>The second parameter \<open>ctx\<close> of the two date callbacks, read as \<open>ctx.parent\<close>.\<close>

record refine_ctx =
  parent :: "period option"

definition msg_id_obligatorio :: jstring where
  "msg_id_obligatorio = js ''El ID es obligatorio.''"

definition msg_nombre_3 :: jstring where
  "msg_nombre_3 = js ''El nombre debe tener al menos 3 caracteres.''"

definition msg_inicio_obligatoria :: jstring where
  "msg_inicio_obligatoria = js ''La fecha de inicio es obligatoria.''"

definition msg_fin_obligatoria :: jstring where
  "msg_fin_obligatoria = js ''La fecha de fin es obligatoria.''"

definition msg_fin_posterior :: jstring where
  "msg_fin_posterior = js ''La fecha de fin debe ser posterior a la fecha de inicio.''"

definition msg_insc_inicio_obligatoria :: jstring where
  "msg_insc_inicio_obligatoria = js ''La fecha de inicio de inscripciones es obligatoria.''"

definition msg_insc_fin_obligatoria :: jstring where
  "msg_insc_fin_obligatoria = js ''La fecha de fin de inscripciones es obligatoria.''"

definition msg_insc_fin_posterior :: jstring where
  "msg_insc_fin_posterior =
     js ''La fecha de fin de inscripciones debe ser posterior a la fecha de inicio.''"

text \<open>
  The callback of \<open>endDate\<close>:
  \<^verbatim>\<open>(date, ctx) => { const startDate = ctx.parent.startDate; return date > startDate }\<close>
  Reading a property of \<open>undefined\<close> raises a \<open>TypeError\<close>.
\<close>

definition endDate_refinement ::
  "(jstring \<Rightarrow> jsnum) \<Rightarrow> int \<Rightarrow> refine_ctx option \<Rightarrow> js_error + bool" where
  "endDate_refinement S date ctx =
     (case ctx of
        None \<Rightarrow> Inl TypeError
      | Some c \<Rightarrow>
          (case parent c of
             None \<Rightarrow> Inl TypeError
           | Some p \<Rightarrow> Inr (date_gt S date (pe_startDate p))))"

definition enrollmentEndDate_refinement ::
  "(jstring \<Rightarrow> jsnum) \<Rightarrow> int \<Rightarrow> refine_ctx option \<Rightarrow> js_error + bool" where
  "enrollmentEndDate_refinement S date ctx =
     (case ctx of
        None \<Rightarrow> Inl TypeError
      | Some c \<Rightarrow>
          (case parent c of
             None \<Rightarrow> Inl TypeError
           | Some p \<Rightarrow> Inr (date_gt S date (pe_enrollmentStartDate p))))"

text \<open>The nine field schemas of \<open>formSchema\<close>, in the order of the source.\<close>

definition period_id_schema :: "js_value \<Rightarrow> jstring zresult" where
  "period_id_schema v = min_length 1 msg_id_obligatorio (z_string None v)"

definition period_name_schema :: "js_value \<Rightarrow> jstring zresult" where
  "period_name_schema v = min_length 3 msg_nombre_3 (z_string None v)"

definition period_year_schema :: "(jstring \<Rightarrow> jsnum) \<Rightarrow> js_value \<Rightarrow> jsnum zresult" where
  "period_year_schema S v = num_max 2100 (num_min 2000 (z_coerce_number S v))"

definition period_trimester_schema :: "js_value \<Rightarrow> jstring zresult" where
  "period_trimester_schema v = z_enum [js ''1'', js ''2'', js ''3''] v"

definition period_startDate_schema :: "js_value \<Rightarrow> int zresult" where
  "period_startDate_schema v = z_date msg_inicio_obligatoria v"

definition period_endDate_schema :: "(jstring \<Rightarrow> jsnum) \<Rightarrow> js_value \<Rightarrow> int zresult" where
  "period_endDate_schema S v =
     z_refine (endDate_refinement S) msg_fin_posterior (z_date msg_fin_obligatoria v)"

definition period_enrollmentStartDate_schema :: "js_value \<Rightarrow> int zresult" where
  "period_enrollmentStartDate_schema v = z_date msg_insc_inicio_obligatoria v"

definition period_enrollmentEndDate_schema ::
  "(jstring \<Rightarrow> jsnum) \<Rightarrow> js_value \<Rightarrow> int zresult" where
  "period_enrollmentEndDate_schema S v =
     z_refine (enrollmentEndDate_refinement S) msg_insc_fin_posterior
       (z_date msg_insc_fin_obligatoria v)"

definition period_isActive_schema :: "js_value \<Rightarrow> bool zresult" where
  "period_isActive_schema v = z_boolean_default False v"

text \<open>\<open>zodResolver(formSchema)\<close> on the field mapping of the period form.\<close>

definition PeriodForm_formSchema :: "(jstring \<Rightarrow> jsnum) \<Rightarrow> period \<Rightarrow> period parse_outcome" where
  "PeriodForm_formSchema S raw =
     (let r_id = period_id_schema (pe_id raw);
          r_name = period_name_schema (pe_name raw);
          r_year = period_year_schema S (pe_year raw);
          r_trimester = period_trimester_schema (pe_trimester raw);
          r_startDate = period_startDate_schema (pe_startDate raw);
          r_endDate = period_endDate_schema S (pe_endDate raw);
          r_enrollmentStartDate = period_enrollmentStartDate_schema (pe_enrollmentStartDate raw);
          r_enrollmentEndDate = period_enrollmentEndDate_schema S (pe_enrollmentEndDate raw);
          r_isActive = period_isActive_schema (pe_isActive raw)
      in case first_thrown
           [thrown r_id, thrown r_name, thrown r_year, thrown r_trimester, thrown r_startDate,
            thrown r_endDate, thrown r_enrollmentStartDate, thrown r_enrollmentEndDate,
            thrown r_isActive] of
           Some e \<Rightarrow> Thrown e
         | None \<Rightarrow>
             (case do {
                 a \<leftarrow> valid r_id;
                 b \<leftarrow> valid r_name;
                 c \<leftarrow> valid r_year;
                 d \<leftarrow> valid r_trimester;
                 e \<leftarrow> valid r_startDate;
                 f \<leftarrow> valid r_endDate;
                 g \<leftarrow> valid r_enrollmentStartDate;
                 h \<leftarrow> valid r_enrollmentEndDate;
                 i \<leftarrow> valid r_isActive;
                 Some \<lparr>pe_id = JStr a, pe_name = JStr b, pe_year = JNum c,
                       pe_trimester = JStr d, pe_startDate = JDate (Some e),
                       pe_endDate = JDate (Some f), pe_enrollmentStartDate = JDate (Some g),
                       pe_enrollmentEndDate = JDate (Some h), pe_isActive = JBool i\<rparr>
               } of
                Some v \<Rightarrow> Parsed v
              | None \<Rightarrow>
                  Failed (at_field ''id'' r_id @ at_field ''name'' r_name
                    @ at_field ''year'' r_year @ at_field ''trimester'' r_trimester
                    @ at_field ''startDate'' r_startDate @ at_field ''endDate'' r_endDate
                    @ at_field ''enrollmentStartDate'' r_enrollmentStartDate
                    @ at_field ''enrollmentEndDate'' r_enrollmentEndDate
                    @ at_field ''isActive'' r_isActive)))"

text \<open>
  The period of the specification's scenario, and the mapping a freshly opened
  create-mode dialog holds when its dates are those of the scenario (\<open>id\<close> and
  \<open>name\<close> empty, as \<open>defaultValues\<close> sets them). Dates are UTC midnights.
\<close>

definition scenario_period :: period where
  "scenario_period =
     \<lparr>pe_id = JStr (js ''2024-T1''), pe_name = JStr (js ''Trimester I 2024''),
      pe_year = JNum (Fin 2024), pe_trimester = JStr (js ''1''),
      pe_startDate = JDate (Some 1704067200000), pe_endDate = JDate (Some 1711929600000),
      pe_enrollmentStartDate = JDate (Some 1702598400000),
      pe_enrollmentEndDate = JDate (Some 1703203200000), pe_isActive = JBool False\<rparr>"

definition PeriodForm_defaults :: "rat \<Rightarrow> int \<Rightarrow> int \<Rightarrow> int \<Rightarrow> int \<Rightarrow> period" where
  \<comment> \<open>the create-mode \<open>defaultValues\<close>; the five clock-derived values are parameters\<close>
  "PeriodForm_defaults fullYear today plus3months minus14days minus7days =
     \<lparr>pe_id = JStr [], pe_name = JStr [], pe_year = JNum (Fin fullYear),
      pe_trimester = JStr (js ''1''), pe_startDate = JDate (Some today),
      pe_endDate = JDate (Some plus3months),
      pe_enrollmentStartDate = JDate (Some minus14days),
      pe_enrollmentEndDate = JDate (Some minus7days), pe_isActive = JBool False\<rparr>"


section \<open>ProfessorForm: the schema\<close>

record professor =
  pr_id :: js_value
  pr_firstName :: js_value
  pr_lastName :: js_value
  pr_cedula :: js_value
  pr_department :: js_value
  pr_education :: js_value
  pr_specialization :: js_value
  pr_email :: js_value
  pr_phone :: js_value
  pr_hireDateMonth :: js_value
  pr_hireDateYear :: js_value
  pr_contractType :: js_value
  pr_status :: js_value

subsection \<open>The pattern of the cedula\<close>

text \<open>
  \<^verbatim>\<open>/^[VE]-\d{7,8}$/\<close>, built from the pieces of the pattern. A piece maps a string to
  the remainders it can leave after matching a prefix. Without flags, \<open>\d\<close> is
  \<open>[0-9]\<close>, and \<open>^\<close> and \<open>$\<close> are the two ends of the input, so \<open>test\<close> holds when
  some match consumes the whole string.
\<close>

type_synonym matcher = "jstring \<Rightarrow> jstring list"

fun re_class :: "(nat \<Rightarrow> bool) \<Rightarrow> matcher" where
  "re_class P [] = []"
| "re_class P (c # cs) = (if P c then [cs] else [])"

definition re_seq :: "matcher \<Rightarrow> matcher \<Rightarrow> matcher" where
  "re_seq r1 r2 s = concat (map r2 (r1 s))"

fun re_times :: "nat \<Rightarrow> matcher \<Rightarrow> matcher" where
  "re_times 0 r s = [s]"
| "re_times (Suc n) r s = re_seq r (re_times n r) s"

definition re_between :: "nat \<Rightarrow> nat \<Rightarrow> matcher \<Rightarrow> matcher" where
  \<comment> \<open>\<open>r{m,n}\<close>, the longer repetitions first\<close>
  "re_between m n r s = concat (map (\<lambda>k. re_times k r s) (rev [m..<Suc n]))"

definition re_test_anchored :: "matcher \<Rightarrow> jstring \<Rightarrow> bool" where
  "re_test_anchored r s = ([] \<in> set (r s))"

definition is_digit :: "nat \<Rightarrow> bool" where
  "is_digit c = (of_char CHR ''0'' \<le> c \<and> c \<le> of_char CHR ''9'')"

definition cedula_regex :: "jstring \<Rightarrow> bool" where
  "cedula_regex =
     re_test_anchored
       (re_seq (re_class (\<lambda>c. c \<in> set (js ''VE'')))
          (re_seq (re_class (\<lambda>c. c = of_char CHR ''-''))
             (re_between 7 8 (re_class is_digit))))"

text \<open>
  The format in the words of the specification: the letter V or E, a dash, then 7 to 8
  digits, and nothing else.
\<close>

definition cedula_format :: "jstring \<Rightarrow> bool" where
  "cedula_format s =
     (case s of
        l # d # ds \<Rightarrow>
          (l = of_char CHR ''V'' \<or> l = of_char CHR ''E'') \<and> d = of_char CHR ''-''
          \<and> (length ds = 7 \<or> length ds = 8) \<and> list_all is_digit ds
      | _ \<Rightarrow> False)"

subsection \<open>The field schemas\<close>

definition msg_prof_id :: jstring where
  "msg_prof_id = js ''El ID debe tener al menos 2 caracteres.''"

definition msg_prof_firstName :: jstring where
  "msg_prof_firstName = js ''El nombre debe tener al menos 2 caracteres.''"

definition msg_prof_lastName :: jstring where
  "msg_prof_lastName = js ''El apellido debe tener al menos 2 caracteres.''"

definition msg_prof_cedula :: jstring where
  "msg_prof_cedula = js ''La c'' @ [233] @ js ''dula debe tener el formato V-1234567 o E-1234567.''"

definition msg_prof_department :: jstring where
  "msg_prof_department = js ''Por favor seleccione un departamento.''"

definition msg_prof_education :: jstring where
  "msg_prof_education =
     js ''El grado acad'' @ [233] @ js ''mico debe tener al menos 2 caracteres.''"

definition msg_prof_specialization :: jstring where
  "msg_prof_specialization =
     js ''La especializaci'' @ [243] @ js ''n debe tener al menos 2 caracteres.''"

definition msg_prof_email :: jstring where
  "msg_prof_email = js ''Correo electr'' @ [243] @ js ''nico inv'' @ [225] @ js ''lido.''"

definition msg_prof_phone :: jstring where
  "msg_prof_phone =
     js ''N'' @ [250] @ js ''mero de tel'' @ [233] @ js ''fono inv'' @ [225] @ js ''lido.''"

definition professor_id_schema :: "js_value \<Rightarrow> jstring zresult" where
  "professor_id_schema v = min_length 2 msg_prof_id (z_string None v)"

definition professor_firstName_schema :: "js_value \<Rightarrow> jstring zresult" where
  "professor_firstName_schema v = min_length 2 msg_prof_firstName (z_string None v)"

definition professor_lastName_schema :: "js_value \<Rightarrow> jstring zresult" where
  "professor_lastName_schema v = min_length 2 msg_prof_lastName (z_string None v)"

definition professor_cedula_schema :: "js_value \<Rightarrow> jstring zresult" where
  "professor_cedula_schema v = z_regex cedula_regex msg_prof_cedula (z_string None v)"

definition professor_department_schema :: "js_value \<Rightarrow> jstring zresult" where
  "professor_department_schema v = z_string (Some msg_prof_department) v"

definition professor_education_schema :: "js_value \<Rightarrow> jstring zresult" where
  "professor_education_schema v = min_length 2 msg_prof_education (z_string None v)"

definition professor_specialization_schema :: "js_value \<Rightarrow> jstring zresult" where
  "professor_specialization_schema v =
     min_length 2 msg_prof_specialization (z_string None v)"

definition professor_email_schema :: "(jstring \<Rightarrow> bool) \<Rightarrow> js_value \<Rightarrow> jstring zresult" where
  \<comment> \<open>\<open>isEmail\<close>: the test of zod's built-in e-mail pattern\<close>
  "professor_email_schema isEmail v = z_regex isEmail msg_prof_email (z_string None v)"

definition professor_phone_schema :: "js_value \<Rightarrow> jstring zresult" where
  "professor_phone_schema v = min_length 10 msg_prof_phone (z_string None v)"

definition professor_hireDateMonth_schema :: "js_value \<Rightarrow> jstring zresult" where
  "professor_hireDateMonth_schema v = z_string None v"

definition professor_hireDateYear_schema :: "js_value \<Rightarrow> jstring zresult" where
  "professor_hireDateYear_schema v = z_string None v"

definition professor_contractType_schema :: "js_value \<Rightarrow> jstring zresult" where
  "professor_contractType_schema v =
     z_enum [js ''tiempo_completo'', js ''tiempo_parcial'', js ''por_hora''] v"

definition professor_status_schema :: "js_value \<Rightarrow> jstring zresult" where
  "professor_status_schema v =
     z_enum [js ''activo'', js ''inactivo'', js ''sab'' @ [225] @ js ''tico'', js ''permiso''] v"

text \<open>\<open>zodResolver(formSchema)\<close> on the field mapping of the professor form.\<close>

definition ProfessorForm_formSchema ::
  "(jstring \<Rightarrow> bool) \<Rightarrow> professor \<Rightarrow> professor parse_outcome" where
  "ProfessorForm_formSchema isEmail raw =
     (let r_id = professor_id_schema (pr_id raw);
          r_firstName = professor_firstName_schema (pr_firstName raw);
          r_lastName = professor_lastName_schema (pr_lastName raw);
          r_cedula = professor_cedula_schema (pr_cedula raw);
          r_department = professor_department_schema (pr_department raw);
          r_education = professor_education_schema (pr_education raw);
          r_specialization = professor_specialization_schema (pr_specialization raw);
          r_email = professor_email_schema isEmail (pr_email raw);
          r_phone = professor_phone_schema (pr_phone raw);
          r_hireDateMonth = professor_hireDateMonth_schema (pr_hireDateMonth raw);
          r_hireDateYear = professor_hireDateYear_schema (pr_hireDateYear raw);
          r_contractType = professor_contractType_schema (pr_contractType raw);
          r_status = professor_status_schema (pr_status raw)
      in case first_thrown
           [thrown r_id, thrown r_firstName, thrown r_lastName, thrown r_cedula,
            thrown r_department, thrown r_education, thrown r_specialization, thrown r_email,
            thrown r_phone, thrown r_hireDateMonth, thrown r_hireDateYear,
            thrown r_contractType, thrown r_status] of
           Some e \<Rightarrow> Thrown e
         | None \<Rightarrow>
             (case do {
                 a \<leftarrow> valid r_id;
                 b \<leftarrow> valid r_firstName;
                 c \<leftarrow> valid r_lastName;
                 d \<leftarrow> valid r_cedula;
                 e \<leftarrow> valid r_department;
                 f \<leftarrow> valid r_education;
                 g \<leftarrow> valid r_specialization;
                 h \<leftarrow> valid r_email;
                 i \<leftarrow> valid r_phone;
                 j \<leftarrow> valid r_hireDateMonth;
                 k \<leftarrow> valid r_hireDateYear;
                 l \<leftarrow> valid r_contractType;
                 m \<leftarrow> valid r_status;
                 Some \<lparr>pr_id = JStr a, pr_firstName = JStr b, pr_lastName = JStr c,
                       pr_cedula = JStr d, pr_department = JStr e, pr_education = JStr f,
                       pr_specialization = JStr g, pr_email = JStr h, pr_phone = JStr i,
                       pr_hireDateMonth = JStr j, pr_hireDateYear = JStr k,
                       pr_contractType = JStr l, pr_status = JStr m\<rparr>
               } of
                Some v \<Rightarrow> Parsed v
              | None \<Rightarrow>
                  Failed (at_field ''id'' r_id @ at_field ''firstName'' r_firstName
                    @ at_field ''lastName'' r_lastName @ at_field ''cedula'' r_cedula
                    @ at_field ''department'' r_department
                    @ at_field ''education'' r_education
                    @ at_field ''specialization'' r_specialization
                    @ at_field ''email'' r_email @ at_field ''phone'' r_phone
                    @ at_field ''hireDateMonth'' r_hireDateMonth
                    @ at_field ''hireDateYear'' r_hireDateYear
                    @ at_field ''contractType'' r_contractType
                    @ at_field ''status'' r_status)))"

definition sample_professor :: professor where
  "sample_professor =
     \<lparr>pr_id = JStr (js ''PROF-001''), pr_firstName = JStr (js ''Ana''),
      pr_lastName = JStr (js ''Rojas''), pr_cedula = JStr (js ''V-12345678''),
      pr_department = JStr (js ''informatica''), pr_education = JStr (js ''Doctor''),
      pr_specialization = JStr (js ''Redes''), pr_email = JStr (js ''ana@uptma.edu''),
      pr_phone = JStr (js ''+58 412 1234567''), pr_hireDateMonth = JStr (js ''13''),
      pr_hireDateYear = JStr (js ''1800''), pr_contractType = JStr (js ''por_hora''),
      pr_status = JStr (js ''activo'')\<rparr>"

subsection \<open>The options of the two hire-date selects\<close>

text \<open>
  \<open>months.map((month, index) => ... value={index.toString()})\<close> over the twelve month
  names, and \<open>years\<close>, from the current year down to 1990.
\<close>

fun digits_of :: "nat \<Rightarrow> nat \<Rightarrow> jstring" where
  \<comment> \<open>decimal digits of a number, most significant first; the first argument is fuel\<close>
  "digits_of 0 n = []"
| "digits_of (Suc k) n =
     (if n < 10 then [of_char CHR ''0'' + n]
      else digits_of k (n div 10) @ [of_char CHR ''0'' + n mod 10])"

definition toString :: "nat \<Rightarrow> jstring" where
  "toString n = digits_of (Suc n) n"

definition hireDateMonth_options :: "jstring list" where
  "hireDateMonth_options = map toString [0..<12]"

definition hireDateYear_options :: "int \<Rightarrow> jstring list" where
  \<comment> \<open>\<open>Array.from({ length: currentYear - 1990 + 1 }, (_, i) => (currentYear - i).toString())\<close>\<close>
  "hireDateYear_options currentYear =
     map (\<lambda>i. toString (nat (currentYear - int i))) [0..<nat (currentYear - 1990 + 1)]"

section \<open>The submit handlers\<close>

text \<open>
  What \<open>handleSubmit\<close> does to the world is recorded in order: the call of the
  persistence function with its argument, a toast, the two callbacks of the parent
  (\<open>onSubmit\<close>, \<open>onClose\<close>) and \<open>console.error\<close>. The dialog's \<open>open\<close> flag is a prop
  the parent owns; the component can close the dialog only by calling \<open>onClose\<close>.
\<close>

datatype toast_variant = Default | Destructive

record toast =
  variant :: toast_variant
  title :: jstring
  description :: jstring

datatype ('v, 'p) effect =
    SaveCall 'p
  | Toast toast
  | OnSubmit 'v
  | OnClose
  | ConsoleError jstring

text \<open>
  The result object of the persistence function, and the ways its call can end: it
  raises before returning a promise, or the promise is fulfilled with a result, or the
  promise is rejected.
\<close>

record save_result =
  success :: bool
  error :: "jstring option"

datatype settlement = Fulfilled save_result | Rejected

datatype gateway_outcome = ThrowsSync | Settles settlement

text \<open>
  The component's state: the \<open>isSubmitting\<close> flag of \<open>useState\<close>, the field mapping and
  the errors that \<open>useForm\<close> keeps, with the \<open>defaultValues\<close> it was given, and the
  effects so far.
\<close>

record ('v, 'p) form_state =
  isSubmitting :: bool
  fieldValues :: 'v
  defaultValues :: 'v
  fieldErrors :: "(string \<times> zissue) list"
  effects :: "('v, 'p) effect list"

definition emit ::
  "('v, 'p) effect \<Rightarrow> ('v, 'p, 'z) form_state_scheme \<Rightarrow> ('v, 'p, 'z) form_state_scheme" where
  "emit e st = st\<lparr>effects := effects st @ [e]\<rparr>"

definition form_reset :: "('v, 'p, 'z) form_state_scheme \<Rightarrow> ('v, 'p, 'z) form_state_scheme" where
  \<comment> \<open>\<open>form.reset()\<close> without arguments\<close>
  "form_reset st = st\<lparr>fieldValues := defaultValues st, fieldErrors := []\<rparr>"

definition or_else :: "jstring option \<Rightarrow> jstring \<Rightarrow> jstring" where
  \<comment> \<open>\<open>result.error || fallback\<close>: \<open>undefined\<close> and the empty string are falsy\<close>
  "or_else e fallback = (case e of None \<Rightarrow> fallback | Some m \<Rightarrow> if m = [] then fallback else m)"

definition msg_error_solicitud :: jstring where
  "msg_error_solicitud = js ''Ocurri'' @ [243] @ js '' un error al procesar la solicitud.''"

subsection \<open>PeriodForm.handleSubmit\<close>

record period_payload =
  code :: js_value
  name :: js_value
  year :: js_value
  trimester :: js_value
  startDate :: js_value
  endDate :: js_value
  enrollmentStartDate :: js_value
  enrollmentEndDate :: js_value
  isActive :: js_value

definition savePeriod_argument :: "period \<Rightarrow> period_payload" where
  "savePeriod_argument values =
     \<lparr>code = pe_id values, name = pe_name values, year = pe_year values,
      trimester = pe_trimester values, startDate = pe_startDate values,
      endDate = pe_endDate values, enrollmentStartDate = pe_enrollmentStartDate values,
      enrollmentEndDate = pe_enrollmentEndDate values, isActive = pe_isActive values\<rparr>"

text \<open>Up to the \<open>await\<close>: the flag is set and \<open>savePeriod\<close> is called.\<close>

definition PeriodForm_handleSubmit_start ::
  "period \<Rightarrow> (period, period_payload, 'z) form_state_scheme
   \<Rightarrow> (period, period_payload, 'z) form_state_scheme" where
  "PeriodForm_handleSubmit_start values st =
     emit (SaveCall (savePeriod_argument values)) (st\<lparr>isSubmitting := True\<rparr>)"

text \<open>From the end of the call on: the rest of \<open>try\<close>, or \<open>catch\<close>, then \<open>finally\<close>.\<close>

definition PeriodForm_handleSubmit_finish ::
  "period option \<Rightarrow> period \<Rightarrow> gateway_outcome
   \<Rightarrow> (period, period_payload, 'z) form_state_scheme
   \<Rightarrow> (period, period_payload, 'z) form_state_scheme" where
  "PeriodForm_handleSubmit_finish initialData values outcome st =
     (let st' =
        (case outcome of
           Settles (Fulfilled result) \<Rightarrow>
             if success result then
               emit OnClose
                 (form_reset
                    (emit (OnSubmit values)
                       (emit (Toast
                          \<lparr>variant = Default,
                           title = (if initialData \<noteq> None
                                    then js ''Per'' @ [237] @ js ''odo actualizado''
                                    else js ''Per'' @ [237] @ js ''odo registrado''),
                           description = (if initialData \<noteq> None
                                    then js ''Los datos del per'' @ [237]
                                      @ js ''odo han sido actualizados correctamente.''
                                    else js ''El per'' @ [237]
                                      @ js ''odo ha sido registrado correctamente.'')\<rparr>) st)))
             else
               emit (Toast
                  \<lparr>variant = Destructive, title = js ''Error'',
                   description = or_else (error result)
                     (js ''No se pudo guardar los datos del per'' @ [237] @ js ''odo.'')\<rparr>) st
         | _ \<Rightarrow>
             emit (Toast
                \<lparr>variant = Destructive, title = js ''Error'',
                 description = msg_error_solicitud\<rparr>)
               (emit (ConsoleError (js ''Error al guardar per'' @ [237] @ js ''odo:'')) st))
      in st'\<lparr>isSubmitting := False\<rparr>)"

text \<open>One whole submit attempt, with a persistence function that ends as \<open>gateway\<close> says.\<close>

definition PeriodForm_handleSubmit ::
  "period option \<Rightarrow> (period_payload \<Rightarrow> gateway_outcome) \<Rightarrow> period
   \<Rightarrow> (period, period_payload, 'z) form_state_scheme
   \<Rightarrow> (period, period_payload, 'z) form_state_scheme" where
  "PeriodForm_handleSubmit initialData gateway values st =
     PeriodForm_handleSubmit_finish initialData values (gateway (savePeriod_argument values))
       (PeriodForm_handleSubmit_start values st)"

subsection \<open>ProfessorForm.handleSubmit\<close>

definition ProfessorForm_handleSubmit_start ::
  "professor \<Rightarrow> (professor, professor, 'z) form_state_scheme
   \<Rightarrow> (professor, professor, 'z) form_state_scheme" where
  "ProfessorForm_handleSubmit_start values st =
     emit (SaveCall values) (st\<lparr>isSubmitting := True\<rparr>)"

definition ProfessorForm_handleSubmit_finish ::
  "professor option \<Rightarrow> professor \<Rightarrow> gateway_outcome
   \<Rightarrow> (professor, professor, 'z) form_state_scheme
   \<Rightarrow> (professor, professor, 'z) form_state_scheme" where
  "ProfessorForm_handleSubmit_finish initialData values outcome st =
     (let st' =
        (case outcome of
           Settles (Fulfilled result) \<Rightarrow>
             if success result then
               emit OnClose
                 (form_reset
                    (emit (OnSubmit values)
                       (emit (Toast
                          \<lparr>variant = Default,
                           title = (if initialData \<noteq> None
                                    then js ''Profesor actualizado''
                                    else js ''Profesor registrado''),
                           description = (if initialData \<noteq> None
                                    then js ''Los datos del profesor han sido actualizados correctamente.''
                                    else js ''El profesor ha sido registrado correctamente.'')\<rparr>) st)))
             else
               emit (Toast
                  \<lparr>variant = Destructive, title = js ''Error'',
                   description = or_else (error result)
                     (js ''No se pudo guardar los datos del profesor.'')\<rparr>) st
         | _ \<Rightarrow>
             emit (Toast
                \<lparr>variant = Destructive, title = js ''Error'',
                 description = msg_error_solicitud\<rparr>)
               (emit (ConsoleError (js ''Error al guardar profesor:'')) st))
      in st'\<lparr>isSubmitting := False\<rparr>)"

definition ProfessorForm_handleSubmit ::
  "professor option \<Rightarrow> (professor \<Rightarrow> gateway_outcome) \<Rightarrow> professor
   \<Rightarrow> (professor, professor, 'z) form_state_scheme
   \<Rightarrow> (professor, professor, 'z) form_state_scheme" where
  "ProfessorForm_handleSubmit initialData gateway values st =
     ProfessorForm_handleSubmit_finish initialData values (gateway values)
       (ProfessorForm_handleSubmit_start values st)"


section \<open>The mounted dialog\<close>

text \<open>
  A mounted form reacts to the clicks on its two footer buttons, to the dialog's own
  dismissal (\<open>onOpenChange={onClose}\<close>), to edits of the fields, to the end of a
  validation, to a render, and to the settlement of a promise that a \<open>handleSubmit\<close>
  is awaiting.

  Both footer buttons carry \<open>disabled={isSubmitting}\<close>. The attribute is written when
  the component renders, so between two renders the buttons keep what the last render
  gave them (\<open>buttonsDisabled\<close>), whatever \<open>setIsSubmitting\<close> has been called with in
  the meantime. A disabled button receives no click, and a form whose submit button is
  disabled is not submitted.

  A click on the enabled submit button runs \<open>form.handleSubmit(handleSubmit)\<close>, which
  takes the field mapping and awaits the resolver (\<open>validating\<close> holds the mappings of
  the validations under way). When a validation ends with an entity, \<open>handleSubmit\<close> is
  called with it: the function itself tests nothing, it sets the flag and calls the
  persistence function. \<open>pending\<close> holds the entity of every \<open>handleSubmit\<close> suspended
  at its \<open>await\<close>.
\<close>

record ('v, 'p) mounted = "('v, 'p) form_state" +
  buttonsDisabled :: bool
  validating :: "'v list"
  pending :: "'v list"

datatype 'v ui_event =
    ClickSubmit
  | ClickCancel
  | DismissDialog
  | Edit 'v
  | Render
  | Validated nat
  | Settle nat settlement

definition mount :: "'v option \<Rightarrow> 'v \<Rightarrow> ('v, 'p) mounted" where
  \<comment> \<open>\<open>defaultValues: initialData || {...}\<close>, and the first render with \<open>useState(false)\<close>\<close>
  "mount initialData fresh =
     (let d = (case initialData of Some v \<Rightarrow> v | None \<Rightarrow> fresh)
      in \<lparr>isSubmitting = False, fieldValues = d, defaultValues = d, fieldErrors = [],
          effects = [], buttonsDisabled = False, validating = [], pending = []\<rparr>)"

definition drop_nth :: "nat \<Rightarrow> 'a list \<Rightarrow> 'a list" where
  "drop_nth i xs = take i xs @ drop (Suc i) xs"

fun PeriodForm_step ::
  "(period \<Rightarrow> period parse_outcome) \<Rightarrow> (period_payload \<Rightarrow> bool) \<Rightarrow> period option
   \<Rightarrow> period ui_event \<Rightarrow> (period, period_payload) mounted \<Rightarrow> (period, period_payload) mounted" where
  "PeriodForm_step resolver throws initialData ClickSubmit st =
     (if buttonsDisabled st then st
      else st\<lparr>validating := validating st @ [fieldValues st]\<rparr>)"
| "PeriodForm_step resolver throws initialData (Validated i) st =
     (if i < length (validating st)
      then
        (let st0 = st\<lparr>validating := drop_nth i (validating st)\<rparr>
         in case resolver (validating st ! i) of
              Parsed values \<Rightarrow>
                (let st1 = PeriodForm_handleSubmit_start values st0
                 in if throws (savePeriod_argument values)
                    then PeriodForm_handleSubmit_finish initialData values ThrowsSync st1
                    else st1\<lparr>pending := pending st1 @ [values]\<rparr>)
            | Failed errs \<Rightarrow> st0\<lparr>fieldErrors := errs\<rparr>
            | Thrown e \<Rightarrow> st0)
      else st)"
| "PeriodForm_step resolver throws initialData Render st =
     st\<lparr>buttonsDisabled := isSubmitting st\<rparr>"
| "PeriodForm_step resolver throws initialData ClickCancel st =
     (if buttonsDisabled st then st else emit OnClose st)"
| "PeriodForm_step resolver throws initialData DismissDialog st = emit OnClose st"
| "PeriodForm_step resolver throws initialData (Edit v) st = st\<lparr>fieldValues := v\<rparr>"
| "PeriodForm_step resolver throws initialData (Settle i outcome) st =
     (if i < length (pending st)
      then PeriodForm_handleSubmit_finish initialData (pending st ! i) (Settles outcome)
             (st\<lparr>pending := drop_nth i (pending st)\<rparr>)
      else st)"

fun ProfessorForm_step ::
  "(professor \<Rightarrow> professor parse_outcome) \<Rightarrow> (professor \<Rightarrow> bool) \<Rightarrow> professor option
   \<Rightarrow> professor ui_event \<Rightarrow> (professor, professor) mounted \<Rightarrow> (professor, professor) mounted" where
  "ProfessorForm_step resolver throws initialData ClickSubmit st =
     (if buttonsDisabled st then st
      else st\<lparr>validating := validating st @ [fieldValues st]\<rparr>)"
| "ProfessorForm_step resolver throws initialData (Validated i) st =
     (if i < length (validating st)
      then
        (let st0 = st\<lparr>validating := drop_nth i (validating st)\<rparr>
         in case resolver (validating st ! i) of
              Parsed values \<Rightarrow>
                (let st1 = ProfessorForm_handleSubmit_start values st0
                 in if throws values
                    then ProfessorForm_handleSubmit_finish initialData values ThrowsSync st1
                    else st1\<lparr>pending := pending st1 @ [values]\<rparr>)
            | Failed errs \<Rightarrow> st0\<lparr>fieldErrors := errs\<rparr>
            | Thrown e \<Rightarrow> st0)
      else st)"
| "ProfessorForm_step resolver throws initialData Render st =
     st\<lparr>buttonsDisabled := isSubmitting st\<rparr>"
| "ProfessorForm_step resolver throws initialData ClickCancel st =
     (if buttonsDisabled st then st else emit OnClose st)"
| "ProfessorForm_step resolver throws initialData DismissDialog st = emit OnClose st"
| "ProfessorForm_step resolver throws initialData (Edit v) st = st\<lparr>fieldValues := v\<rparr>"
| "ProfessorForm_step resolver throws initialData (Settle i outcome) st =
     (if i < length (pending st)
      then ProfessorForm_handleSubmit_finish initialData (pending st ! i) (Settles outcome)
             (st\<lparr>pending := drop_nth i (pending st)\<rparr>)
      else st)"

definition PeriodForm_run ::
  "(period \<Rightarrow> period parse_outcome) \<Rightarrow> (period_payload \<Rightarrow> bool) \<Rightarrow> period option
   \<Rightarrow> period ui_event list \<Rightarrow> (period, period_payload) mounted \<Rightarrow> (period, period_payload) mounted" where
  "PeriodForm_run resolver throws initialData evs st =
     foldl (\<lambda>s ev. PeriodForm_step resolver throws initialData ev s) st evs"

definition ProfessorForm_run ::
  "(professor \<Rightarrow> professor parse_outcome) \<Rightarrow> (professor \<Rightarrow> bool) \<Rightarrow> professor option
   \<Rightarrow> professor ui_event list \<Rightarrow> (professor, professor) mounted \<Rightarrow> (professor, professor) mounted" where
  "ProfessorForm_run resolver throws initialData evs st =
     foldl (\<lambda>s ev. ProfessorForm_step resolver throws initialData ev s) st evs"

text \<open>
  One action of an unhurried user: the event, then whatever validation it started, then
  the render, all before the next event.
\<close>

definition settled :: "'v ui_event \<Rightarrow> 'v ui_event list" where
  "settled ev = [ev, Validated 0, Render]"

fun is_SaveCall :: "('v, 'p) effect \<Rightarrow> bool" where
  "is_SaveCall (SaveCall p) = True"
| "is_SaveCall _ = False"

fun is_OnSubmit :: "('v, 'p) effect \<Rightarrow> bool" where
  "is_OnSubmit (OnSubmit v) = True"
| "is_OnSubmit _ = False"

definition gateway_calls :: "('v, 'p, 'z) form_state_scheme \<Rightarrow> nat" where
  "gateway_calls st = length (filter is_SaveCall (effects st))"

section \<open>Vocabulary of the properties\<close>

text \<open>
  What a failed attempt adds to the effects: a destructive toast, after a line on the
  console when the call raised or its promise was rejected.
\<close>

fun error_report :: "('v, 'p) effect list \<Rightarrow> bool" where
  "error_report [Toast t] = (variant t = Destructive)"
| "error_report [ConsoleError m, Toast t] = (variant t = Destructive)"
| "error_report _ = False"

text \<open>Two results of the persistence function: stored, and declined with a reason.\<close>

definition ok_result :: save_result where
  "ok_result = \<lparr>success = True, error = None\<rparr>"

definition duplicate_result :: save_result where
  "duplicate_result = \<lparr>success = False, error = Some (js ''duplicado'')\<rparr>"

text \<open>
  Instances of the two library parameters, for concrete evaluation only: a string
  conversion that is right on strings of decimal digits (and answers \<open>NaN\<close> elsewhere),
  and an e-mail test that looks for the \<open>@\<close>.
\<close>

fun num_of :: "jstring \<Rightarrow> nat" where
  "num_of s = foldl (\<lambda>a c. 10 * a + (c - of_char CHR ''0'')) 0 s"

definition sample_StringToNumber :: "jstring \<Rightarrow> jsnum" where
  "sample_StringToNumber s = (if list_all is_digit s then Fin (of_nat (num_of s)) else NaN)"

definition sample_isEmail :: "jstring \<Rightarrow> bool" where
  "sample_isEmail s = (of_char CHR ''@'' \<in> set s)"

text \<open>
  The code units that \<open>String.prototype.trim\<close> removes (white space and line
  terminators).
\<close>

definition is_whitespace :: "nat \<Rightarrow> bool" where
  "is_whitespace c =
     (c \<in> set [9, 10, 11, 12, 13, 32, 160, 5760, 8192, 8193, 8194, 8195, 8196, 8197, 8198, 8199,
                8200, 8201, 8202, 8232, 8233, 8239, 8287, 12288, 65279])"

text \<open>
  A mounted form at rest: no validation is under way, the buttons show the flag, and a
  call is pending exactly while the flag is set, and then there is one.
\<close>

definition at_rest :: "('v, 'p) mounted \<Rightarrow> bool" where
  "at_rest st =
     (validating st = [] \<and> buttonsDisabled st = isSubmitting st
      \<and> length (pending st) = (if isSubmitting st then 1 else 0))"


section \<open>Properties of the submit handlers\<close>

lemma emit_simps:
  "effects (emit e st) = effects st @ [e]"
  "isSubmitting (emit e st) = isSubmitting st"
  "fieldValues (emit e st) = fieldValues st"
  "defaultValues (emit e st) = defaultValues st"
  "fieldErrors (emit e st) = fieldErrors st"
  by (simp_all add: emit_def)

lemma form_reset_simps:
  "effects (form_reset st) = effects st"
  "isSubmitting (form_reset st) = isSubmitting st"
  "fieldValues (form_reset st) = defaultValues st"
  "defaultValues (form_reset st) = defaultValues st"
  "fieldErrors (form_reset st) = []"
  by (simp_all add: form_reset_def)

lemma PeriodForm_start_simps:
  "effects (PeriodForm_handleSubmit_start values st)
     = effects st @ [SaveCall (savePeriod_argument values)]"
  "isSubmitting (PeriodForm_handleSubmit_start values st)"
  "fieldValues (PeriodForm_handleSubmit_start values st) = fieldValues st"
  "defaultValues (PeriodForm_handleSubmit_start values st) = defaultValues st"
  "fieldErrors (PeriodForm_handleSubmit_start values st) = fieldErrors st"
  by (simp_all add: PeriodForm_handleSubmit_start_def emit_def)

lemma ProfessorForm_start_simps:
  "effects (ProfessorForm_handleSubmit_start values st) = effects st @ [SaveCall values]"
  "isSubmitting (ProfessorForm_handleSubmit_start values st)"
  "fieldValues (ProfessorForm_handleSubmit_start values st) = fieldValues st"
  "defaultValues (ProfessorForm_handleSubmit_start values st) = defaultValues st"
  "fieldErrors (ProfessorForm_handleSubmit_start values st) = fieldErrors st"
  by (simp_all add: ProfessorForm_handleSubmit_start_def emit_def)

text \<open>The three ways a call can end without success, and the one with.\<close>

lemma outcome_cases:
  obtains (sync) "outcome = ThrowsSync"
  | (rejected) "outcome = Settles Rejected"
  | (failure) result where "outcome = Settles (Fulfilled result)" "\<not> success result"
  | (success) result where "outcome = Settles (Fulfilled result)" "success result"
proof (cases outcome)
  case ThrowsSync
  then show ?thesis by (rule sync)
next
  case (Settles s)
  show ?thesis
  proof (cases s)
    case (Fulfilled result)
    with Settles show ?thesis
      by (cases "success result") (auto intro: failure success)
  next
    case Rejected
    with Settles show ?thesis by (auto intro: rejected)
  qed
qed

lemma PeriodForm_finish_flag:
  "\<not> isSubmitting (PeriodForm_handleSubmit_finish initialData values outcome st)"
  by (simp add: PeriodForm_handleSubmit_finish_def Let_def)

lemma ProfessorForm_finish_flag:
  "\<not> isSubmitting (ProfessorForm_handleSubmit_finish initialData values outcome st)"
  by (simp add: ProfessorForm_handleSubmit_finish_def Let_def)

lemma PeriodForm_finish_success:
  assumes "success result"
  shows "\<exists>t. variant t = Default \<and>
           effects (PeriodForm_handleSubmit_finish initialData values (Settles (Fulfilled result)) st)
             = effects st @ [Toast t, OnSubmit values, OnClose]"
    and "fieldValues (PeriodForm_handleSubmit_finish initialData values (Settles (Fulfilled result)) st)
           = defaultValues st"
  using assms
  by (simp_all add: PeriodForm_handleSubmit_finish_def Let_def emit_simps form_reset_simps)

lemma ProfessorForm_finish_success:
  assumes "success result"
  shows "\<exists>t. variant t = Default \<and>
           effects (ProfessorForm_handleSubmit_finish initialData values (Settles (Fulfilled result)) st)
             = effects st @ [Toast t, OnSubmit values, OnClose]"
    and "fieldValues (ProfessorForm_handleSubmit_finish initialData values (Settles (Fulfilled result)) st)
           = defaultValues st"
  using assms
  by (simp_all add: ProfessorForm_handleSubmit_finish_def Let_def emit_simps form_reset_simps)

lemma PeriodForm_finish_failure:
  assumes "\<And>result. outcome = Settles (Fulfilled result) \<Longrightarrow> \<not> success result"
  shows "\<exists>es. error_report es \<and>
           effects (PeriodForm_handleSubmit_finish initialData values outcome st) = effects st @ es"
proof (cases outcome rule: outcome_cases)
  case sync
  then show ?thesis
    by (simp add: PeriodForm_handleSubmit_finish_def Let_def emit_simps)
next
  case rejected
  then show ?thesis
    by (simp add: PeriodForm_handleSubmit_finish_def Let_def emit_simps)
next
  case (failure result)
  then show ?thesis
    by (simp add: PeriodForm_handleSubmit_finish_def Let_def emit_simps)
next
  case (success result)
  with assms show ?thesis by simp
qed

lemma PeriodForm_finish_failure_state:
  assumes "\<And>result. outcome = Settles (Fulfilled result) \<Longrightarrow> \<not> success result"
  shows "fieldValues (PeriodForm_handleSubmit_finish initialData values outcome st) = fieldValues st
       \<and> fieldErrors (PeriodForm_handleSubmit_finish initialData values outcome st) = fieldErrors st
       \<and> defaultValues (PeriodForm_handleSubmit_finish initialData values outcome st) = defaultValues st"
proof (cases outcome rule: outcome_cases)
  case (success result)
  with assms show ?thesis by simp
qed (simp_all add: PeriodForm_handleSubmit_finish_def Let_def emit_simps)

lemma ProfessorForm_finish_failure:
  assumes "\<And>result. outcome = Settles (Fulfilled result) \<Longrightarrow> \<not> success result"
  shows "\<exists>es. error_report es \<and>
           effects (ProfessorForm_handleSubmit_finish initialData values outcome st) = effects st @ es"
proof (cases outcome rule: outcome_cases)
  case (success result)
  with assms show ?thesis by simp
qed (simp_all add: ProfessorForm_handleSubmit_finish_def Let_def emit_simps)

lemma ProfessorForm_finish_failure_state:
  assumes "\<And>result. outcome = Settles (Fulfilled result) \<Longrightarrow> \<not> success result"
  shows "fieldValues (ProfessorForm_handleSubmit_finish initialData values outcome st) = fieldValues st
       \<and> fieldErrors (ProfessorForm_handleSubmit_finish initialData values outcome st) = fieldErrors st
       \<and> defaultValues (ProfessorForm_handleSubmit_finish initialData values outcome st) = defaultValues st"
proof (cases outcome rule: outcome_cases)
  case (success result)
  with assms show ?thesis by simp
qed (simp_all add: ProfessorForm_handleSubmit_finish_def Let_def emit_simps)

text \<open>
  Claim C1. When the persistence call is fulfilled with a result whose \<open>success\<close> is
  true, the attempt adds exactly four effects: the call itself, a default toast,
  \<open>onSubmit\<close> with the validated entity (once), and \<open>onClose\<close>; and the field mapping
  is the \<open>defaultValues\<close> again. Both forms.
\<close>

theorem submit_success_calls_back_resets_and_closes:
  assumes "gp (savePeriod_argument pv) = Settles (Fulfilled rp)" and "success rp"
    and "gf fv = Settles (Fulfilled rf)" and "success rf"
  shows "(\<exists>t. variant t = Default \<and>
            effects (PeriodForm_handleSubmit ip gp pv ps)
              = effects ps @ [SaveCall (savePeriod_argument pv), Toast t, OnSubmit pv, OnClose])
       \<and> fieldValues (PeriodForm_handleSubmit ip gp pv ps) = defaultValues ps
       \<and> (\<exists>t. variant t = Default \<and>
            effects (ProfessorForm_handleSubmit ifd gf fv fs)
              = effects fs @ [SaveCall fv, Toast t, OnSubmit fv, OnClose])
       \<and> fieldValues (ProfessorForm_handleSubmit ifd gf fv fs) = defaultValues fs"
proof -
  have p1: "\<exists>t. variant t = Default \<and>
            effects (PeriodForm_handleSubmit ip gp pv ps)
              = effects ps @ [SaveCall (savePeriod_argument pv), Toast t, OnSubmit pv, OnClose]"
    using PeriodForm_finish_success(1)[OF assms(2), of ip pv "PeriodForm_handleSubmit_start pv ps"]
    by (simp add: PeriodForm_handleSubmit_def assms(1) PeriodForm_start_simps)
  have p2: "fieldValues (PeriodForm_handleSubmit ip gp pv ps) = defaultValues ps"
    using PeriodForm_finish_success(2)[OF assms(2), of ip pv "PeriodForm_handleSubmit_start pv ps"]
    by (simp add: PeriodForm_handleSubmit_def assms(1) PeriodForm_start_simps)
  have f1: "\<exists>t. variant t = Default \<and>
            effects (ProfessorForm_handleSubmit ifd gf fv fs)
              = effects fs @ [SaveCall fv, Toast t, OnSubmit fv, OnClose]"
    using ProfessorForm_finish_success(1)[OF assms(4), of ifd fv "ProfessorForm_handleSubmit_start fv fs"]
    by (simp add: ProfessorForm_handleSubmit_def assms(3) ProfessorForm_start_simps)
  have f2: "fieldValues (ProfessorForm_handleSubmit ifd gf fv fs) = defaultValues fs"
    using ProfessorForm_finish_success(2)[OF assms(4), of ifd fv "ProfessorForm_handleSubmit_start fv fs"]
    by (simp add: ProfessorForm_handleSubmit_def assms(3) ProfessorForm_start_simps)
  from p1 p2 f1 f2 show ?thesis by blast
qed

theorem submit_success_witness:
  "success ok_result
   \<and> filter is_OnSubmit
       (effects (PeriodForm_handleSubmit None (\<lambda>p. Settles (Fulfilled ok_result)) scenario_period
          (mount None (PeriodForm_defaults 2024 0 1 2 3))))
       = [OnSubmit scenario_period]
   \<and> fieldValues (PeriodForm_handleSubmit None (\<lambda>p. Settles (Fulfilled ok_result)) scenario_period
          ((mount None (PeriodForm_defaults 2024 0 1 2 3))\<lparr>fieldValues := scenario_period\<rparr>))
       = PeriodForm_defaults 2024 0 1 2 3
   \<and> filter is_OnSubmit
       (effects (ProfessorForm_handleSubmit None (\<lambda>p. Settles (Fulfilled ok_result)) sample_professor
          (mount None sample_professor)))
       = [OnSubmit sample_professor]"
proof -
  have s: "success ok_result" by (simp add: ok_result_def)
  have e: "effects (mount None d) = []" "defaultValues ((mount None d)\<lparr>fieldValues := v\<rparr>) = d" for d :: 'a and v
    by (simp_all add: mount_def)
  show ?thesis
    using s submit_success_calls_back_resets_and_closes
      [of "\<lambda>p. Settles (Fulfilled ok_result)" scenario_period ok_result
          "\<lambda>p. Settles (Fulfilled ok_result)" sample_professor ok_result
          None "mount None (PeriodForm_defaults 2024 0 1 2 3)" None "mount None sample_professor",
       OF refl s refl s]
      submit_success_calls_back_resets_and_closes
      [of "\<lambda>p. Settles (Fulfilled ok_result)" scenario_period ok_result
          "\<lambda>p. Settles (Fulfilled ok_result)" sample_professor ok_result
          None "(mount None (PeriodForm_defaults 2024 0 1 2 3))\<lparr>fieldValues := scenario_period\<rparr>"
          None "mount None sample_professor",
       OF refl s refl s]
    by (auto simp: e)
qed

lemma error_report_no_callbacks:
  assumes "error_report es"
  shows "OnClose \<notin> set es \<and> filter is_OnSubmit es = [] \<and> filter is_SaveCall es = []"
  using assms by (cases es rule: error_report.cases) simp_all

text \<open>
  Claim C2. When the call raises, or its promise is rejected, or it is fulfilled with a
  result whose \<open>success\<close> is false, the attempt adds the call and an error report (a
  destructive toast, after a console line when the call faulted): neither \<open>onSubmit\<close>
  nor \<open>onClose\<close> is called, so the dialog stays open, and the field mapping and its
  errors are unchanged. Both forms.
\<close>

theorem submit_failure_keeps_dialog_and_fields:
  assumes "\<And>result. gp (savePeriod_argument pv) = Settles (Fulfilled result) \<Longrightarrow> \<not> success result"
    and "\<And>result. gf fv = Settles (Fulfilled result) \<Longrightarrow> \<not> success result"
  shows "(\<exists>es. error_report es \<and> OnClose \<notin> set es \<and> filter is_OnSubmit es = []
            \<and> effects (PeriodForm_handleSubmit ip gp pv ps)
                = effects ps @ SaveCall (savePeriod_argument pv) # es)
       \<and> fieldValues (PeriodForm_handleSubmit ip gp pv ps) = fieldValues ps
       \<and> fieldErrors (PeriodForm_handleSubmit ip gp pv ps) = fieldErrors ps
       \<and> (\<exists>es. error_report es \<and> OnClose \<notin> set es \<and> filter is_OnSubmit es = []
            \<and> effects (ProfessorForm_handleSubmit ifd gf fv fs) = effects fs @ SaveCall fv # es)
       \<and> fieldValues (ProfessorForm_handleSubmit ifd gf fv fs) = fieldValues fs
       \<and> fieldErrors (ProfessorForm_handleSubmit ifd gf fv fs) = fieldErrors fs"
proof -
  obtain es where es: "error_report es"
      "effects (PeriodForm_handleSubmit ip gp pv ps) = effects ps @ SaveCall (savePeriod_argument pv) # es"
    using PeriodForm_finish_failure[of "gp (savePeriod_argument pv)" ip pv
        "PeriodForm_handleSubmit_start pv ps", OF assms(1)]
    by (auto simp: PeriodForm_handleSubmit_def PeriodForm_start_simps)
  have p: "fieldValues (PeriodForm_handleSubmit ip gp pv ps) = fieldValues ps
         \<and> fieldErrors (PeriodForm_handleSubmit ip gp pv ps) = fieldErrors ps"
    using PeriodForm_finish_failure_state[of "gp (savePeriod_argument pv)" ip pv
        "PeriodForm_handleSubmit_start pv ps", OF assms(1)]
    by (simp add: PeriodForm_handleSubmit_def PeriodForm_start_simps)
  obtain fes where fes: "error_report fes"
      "effects (ProfessorForm_handleSubmit ifd gf fv fs) = effects fs @ SaveCall fv # fes"
    using ProfessorForm_finish_failure[of "gf fv" ifd fv
        "ProfessorForm_handleSubmit_start fv fs", OF assms(2)]
    by (auto simp: ProfessorForm_handleSubmit_def ProfessorForm_start_simps)
  have f: "fieldValues (ProfessorForm_handleSubmit ifd gf fv fs) = fieldValues fs
         \<and> fieldErrors (ProfessorForm_handleSubmit ifd gf fv fs) = fieldErrors fs"
    using ProfessorForm_finish_failure_state[of "gf fv" ifd fv
        "ProfessorForm_handleSubmit_start fv fs", OF assms(2)]
    by (simp add: ProfessorForm_handleSubmit_def ProfessorForm_start_simps)
  from es error_report_no_callbacks[OF es(1)] have "\<exists>es. error_report es \<and> OnClose \<notin> set es \<and> filter is_OnSubmit es = []
            \<and> effects (PeriodForm_handleSubmit ip gp pv ps)
                = effects ps @ SaveCall (savePeriod_argument pv) # es"
    by blast
  moreover from fes error_report_no_callbacks[OF fes(1)] have "\<exists>es. error_report es \<and> OnClose \<notin> set es \<and> filter is_OnSubmit es = []
            \<and> effects (ProfessorForm_handleSubmit ifd gf fv fs) = effects fs @ SaveCall fv # es"
    by blast
  ultimately show ?thesis using p f by blast
qed

theorem submit_failure_witness:
  "\<not> success duplicate_result
   \<and> OnClose \<notin> set (effects (PeriodForm_handleSubmit None (\<lambda>p. Settles (Fulfilled duplicate_result))
        scenario_period (mount None scenario_period)))
   \<and> filter is_OnSubmit (effects (PeriodForm_handleSubmit None (\<lambda>p. Settles (Fulfilled duplicate_result))
        scenario_period (mount None scenario_period))) = []
   \<and> fieldValues (PeriodForm_handleSubmit None (\<lambda>p. Settles (Fulfilled duplicate_result))
        scenario_period (mount None scenario_period)) = scenario_period
   \<and> OnClose \<notin> set (effects (ProfessorForm_handleSubmit None (\<lambda>p. ThrowsSync)
        sample_professor (mount None sample_professor)))
   \<and> fieldValues (ProfessorForm_handleSubmit None (\<lambda>p. ThrowsSync)
        sample_professor (mount None sample_professor)) = sample_professor"
proof -
  have s: "\<not> success duplicate_result" by (simp add: duplicate_result_def)
  have h1: "\<not> success result"
    if "(\<lambda>p. Settles (Fulfilled duplicate_result)) (savePeriod_argument scenario_period)
          = Settles (Fulfilled result)" for result
    using that s by simp
  have h2: "\<not> success result"
    if "(\<lambda>p::professor. ThrowsSync) sample_professor = Settles (Fulfilled result)" for result
    using that by simp
  have e: "effects (mount None d) = []" "fieldValues (mount None d) = d" for d :: 'a
    by (simp_all add: mount_def)
  show ?thesis
    using s submit_failure_keeps_dialog_and_fields
      [of "\<lambda>p. Settles (Fulfilled duplicate_result)" scenario_period "\<lambda>p. ThrowsSync" sample_professor
          None "mount None scenario_period" None "mount None sample_professor", OF h1 h2]
    by (auto simp: e)
qed

text \<open>
  Claim C6. \<open>handleSubmit\<close> sets \<open>isSubmitting\<close> before the call, and whatever way the
  call ends (it raises, its promise is rejected, it is fulfilled with or without
  success) the flag is false when the attempt ends. Both forms.
\<close>

theorem isSubmitting_cleared_on_every_exit:
  "isSubmitting (PeriodForm_handleSubmit_start pv ps)
   \<and> \<not> isSubmitting (PeriodForm_handleSubmit_finish ip pv outcome ps)
   \<and> \<not> isSubmitting (PeriodForm_handleSubmit ip gp pv ps)
   \<and> isSubmitting (ProfessorForm_handleSubmit_start fv fs)
   \<and> \<not> isSubmitting (ProfessorForm_handleSubmit_finish ifd fv outcome fs)
   \<and> \<not> isSubmitting (ProfessorForm_handleSubmit ifd gf fv fs)"
  by (simp add: PeriodForm_finish_flag ProfessorForm_finish_flag PeriodForm_start_simps
      ProfessorForm_start_simps PeriodForm_handleSubmit_def ProfessorForm_handleSubmit_def)

lemma PeriodForm_finish_no_call:
  "\<exists>rest. effects (PeriodForm_handleSubmit_finish ip pv outcome st) = effects st @ rest
     \<and> filter is_SaveCall rest = []"
proof (cases outcome rule: outcome_cases)
  case (success result)
  with PeriodForm_finish_success(1)[OF success(2), of ip pv st] show ?thesis by auto
next
  case (failure result)
  then have "\<And>r. outcome = Settles (Fulfilled r) \<Longrightarrow> \<not> success r" by simp
  from PeriodForm_finish_failure[of outcome ip pv st, OF this] error_report_no_callbacks
  show ?thesis by blast
next
  case sync
  then have "\<And>r. outcome = Settles (Fulfilled r) \<Longrightarrow> \<not> success r" by simp
  from PeriodForm_finish_failure[of outcome ip pv st, OF this] error_report_no_callbacks
  show ?thesis by blast
next
  case rejected
  then have "\<And>r. outcome = Settles (Fulfilled r) \<Longrightarrow> \<not> success r" by simp
  from PeriodForm_finish_failure[of outcome ip pv st, OF this] error_report_no_callbacks
  show ?thesis by blast
qed

text \<open>
  Claim C7. \<open>PeriodForm.handleSubmit\<close> calls \<open>savePeriod\<close> once, with an object whose
  \<open>code\<close> is the entity's \<open>id\<close> and whose other fields are the entity's fields of the
  same name; for the period of the scenario, \<open>code\<close> is \<open>2024-T1\<close>.
\<close>

theorem period_payload_renames_id_to_code:
  "(\<exists>rest. effects (PeriodForm_handleSubmit ip gp pv ps)
              = effects ps @ SaveCall (savePeriod_argument pv) # rest
          \<and> filter is_SaveCall rest = [])
   \<and> code (savePeriod_argument pv) = pe_id pv
   \<and> name (savePeriod_argument pv) = pe_name pv
   \<and> year (savePeriod_argument pv) = pe_year pv
   \<and> trimester (savePeriod_argument pv) = pe_trimester pv
   \<and> startDate (savePeriod_argument pv) = pe_startDate pv
   \<and> endDate (savePeriod_argument pv) = pe_endDate pv
   \<and> enrollmentStartDate (savePeriod_argument pv) = pe_enrollmentStartDate pv
   \<and> enrollmentEndDate (savePeriod_argument pv) = pe_enrollmentEndDate pv
   \<and> isActive (savePeriod_argument pv) = pe_isActive pv
   \<and> code (savePeriod_argument scenario_period) = JStr (js ''2024-T1'')"
proof -
  from PeriodForm_finish_no_call[of ip pv "gp (savePeriod_argument pv)" "PeriodForm_handleSubmit_start pv ps"]
  have "\<exists>rest. effects (PeriodForm_handleSubmit ip gp pv ps)
              = effects ps @ SaveCall (savePeriod_argument pv) # rest
          \<and> filter is_SaveCall rest = []"
    by (auto simp: PeriodForm_handleSubmit_def PeriodForm_start_simps)
  then show ?thesis
    by (simp add: savePeriod_argument_def scenario_period_def)
qed


section \<open>Properties of the schemas\<close>

subsection \<open>Which primitives can raise\<close>

lemma thrown_z_check: "thrown (z_check ok iss r) = thrown r"
  by (cases r) simp_all

lemma thrown_z_string: "thrown (z_string req v) = None"
  by (cases "(req, v)" rule: z_string.cases) simp_all

lemma thrown_z_number: "thrown (z_number v) = None"
  by (cases v rule: z_number.cases) simp_all

lemma thrown_z_enum: "thrown (z_enum opts v) = None"
  by (cases "(opts, v)" rule: z_enum.cases) simp_all

lemma thrown_z_date: "thrown (z_date req v) = None"
  by (cases "(req, v)" rule: z_date.cases) simp_all

lemma thrown_z_boolean_default: "thrown (z_boolean_default d v) = None"
  by (cases "(d, v)" rule: z_boolean_default.cases) simp_all

lemmas thrown_simps = thrown_z_check thrown_z_string thrown_z_number thrown_z_enum thrown_z_date
  thrown_z_boolean_default

subsection \<open>The year of a period\<close>

lemma period_year_schema_cases:
  "period_year_schema S v =
     (let n = Number_js S v in
      if n = NaN then ZAborted [\<lparr>kind = invalid_type, message = None\<rparr>]
      else if num_lt n (Fin 2000) then ZDirty n [\<lparr>kind = too_small, message = None\<rparr>]
      else if num_lt (Fin 2100) n then ZDirty n [\<lparr>kind = too_big, message = None\<rparr>]
      else ZValid n)"
  by (cases "Number_js S v")
     (auto simp: period_year_schema_def z_coerce_number_def num_min_def num_max_def Let_def)

text \<open>
  Claim C9. The \<open>year\<close> schema of the period form first applies \<open>Number\<close> to its
  input, string or number. It yields a value exactly when the coerced number is finite
  and lies in [2000, 2100], and the value is that number; it has no issue exactly then;
  it never raises; and an input whose coercion is \<open>NaN\<close> is rejected with the single
  issue \<open>invalid_type\<close>.
\<close>

theorem year_coerced_then_range_checked:
  "(valid (period_year_schema S v) = Some n)
      = (n = Number_js S v \<and> (\<exists>q. n = Fin q \<and> 2000 \<le> q \<and> q \<le> 2100))
   \<and> (issues_of (period_year_schema S v) = [])
      = (\<exists>q. Number_js S v = Fin q \<and> 2000 \<le> q \<and> q \<le> 2100)
   \<and> thrown (period_year_schema S v) = None
   \<and> (Number_js S v = NaN \<longrightarrow>
        period_year_schema S v = ZAborted [\<lparr>kind = invalid_type, message = None\<rparr>])"
proof -
  have a: "(valid (period_year_schema S v) = Some n)
      = (n = Number_js S v \<and> (\<exists>q. n = Fin q \<and> 2000 \<le> q \<and> q \<le> 2100))"
    unfolding period_year_schema_cases Let_def
    by (cases "Number_js S v") auto
  have b: "(issues_of (period_year_schema S v) = [])
      = (\<exists>q. Number_js S v = Fin q \<and> 2000 \<le> q \<and> q \<le> 2100)"
    unfolding period_year_schema_cases Let_def
    by (cases "Number_js S v") auto
  have c: "thrown (period_year_schema S v) = None"
    by (simp add: period_year_schema_def num_min_def num_max_def z_coerce_number_def thrown_simps)
  have d: "Number_js S v = NaN \<longrightarrow>
        period_year_schema S v = ZAborted [\<lparr>kind = invalid_type, message = None\<rparr>]"
    by (simp add: period_year_schema_cases)
  from a b c d show ?thesis by blast
qed

lemma sample_2024: "sample_StringToNumber (js ''2024'') = Fin 2024"
  by (simp add: sample_StringToNumber_def js_def is_digit_def)

lemma sample_abc: "sample_StringToNumber (js ''abc'') = NaN"
  by (simp add: sample_StringToNumber_def js_def is_digit_def)

theorem year_witness:
  "valid (period_year_schema sample_StringToNumber (JStr (js ''2024''))) = Some (Fin 2024)
   \<and> valid (period_year_schema sample_StringToNumber (JNum (Fin 2024))) = Some (Fin 2024)
   \<and> issues_of (period_year_schema sample_StringToNumber (JNum (Fin 2101))) \<noteq> []
   \<and> Number_js sample_StringToNumber (JStr (js ''abc'')) = NaN
   \<and> period_year_schema sample_StringToNumber (JStr (js ''abc''))
       = ZAborted [\<lparr>kind = invalid_type, message = None\<rparr>]"
  using year_coerced_then_range_checked[of sample_StringToNumber "JStr (js ''2024'')" "Fin 2024"]
    year_coerced_then_range_checked[of sample_StringToNumber "JNum (Fin 2024)" "Fin 2024"]
    year_coerced_then_range_checked[of sample_StringToNumber "JNum (Fin 2101)" "Fin 2101"]
    year_coerced_then_range_checked[of sample_StringToNumber "JStr (js ''abc'')" NaN]
  by (simp add: sample_2024 sample_abc)

subsection \<open>The date pairs of a period\<close>

lemma period_endDate_raises: "period_endDate_schema S (JDate (Some t)) = ZThrow TypeError"
  by (simp add: period_endDate_schema_def endDate_refinement_def)

lemma period_enrollmentEndDate_raises:
  "period_enrollmentEndDate_schema S (JDate (Some t)) = ZThrow TypeError"
  by (simp add: period_enrollmentEndDate_schema_def enrollmentEndDate_refinement_def)

lemma period_leading_fields_not_thrown:
  "thrown (period_id_schema a) = None"
  "thrown (period_name_schema b) = None"
  "thrown (period_year_schema S c) = None"
  "thrown (period_trimester_schema d) = None"
  "thrown (period_startDate_schema e) = None"
  "thrown (period_enrollmentStartDate_schema f) = None"
  "thrown (period_isActive_schema g) = None"
  by (simp_all add: period_id_schema_def period_name_schema_def period_year_schema_def
      period_trimester_schema_def period_startDate_schema_def period_enrollmentStartDate_schema_def
      period_isActive_schema_def min_length_def num_min_def num_max_def z_coerce_number_def
      thrown_simps)

lemma PeriodForm_formSchema_raises:
  assumes "pe_endDate raw = JDate (Some t)"
  shows "PeriodForm_formSchema S raw = Thrown TypeError"
  using assms
  by (simp add: PeriodForm_formSchema_def Let_def period_endDate_raises
      period_leading_fields_not_thrown)

lemma PeriodForm_formSchema_raises_enrollment:
  assumes "pe_enrollmentEndDate raw = JDate (Some t)"
  shows "PeriodForm_formSchema S raw = Thrown TypeError"
proof (cases "thrown (period_endDate_schema S (pe_endDate raw))")
  case None
  with assms show ?thesis
    by (simp add: PeriodForm_formSchema_def Let_def period_enrollmentEndDate_raises
      period_leading_fields_not_thrown)
next
  case (Some e)
  then show ?thesis
    by (cases e) (simp add: PeriodForm_formSchema_def Let_def period_leading_fields_not_thrown)
qed

lemma valid_endDate_None: "valid (period_endDate_schema S v) = None"
proof (cases "\<exists>t. v = JDate (Some t)")
  case True
  then show ?thesis by (auto simp: period_endDate_raises)
next
  case False
  then have "\<exists>is. z_date msg_fin_obligatoria v = ZAborted is"
    by (cases "(msg_fin_obligatoria, v)" rule: z_date.cases) auto
  then show ?thesis by (auto simp: period_endDate_schema_def)
qed

lemma PeriodForm_formSchema_never_parses: "PeriodForm_formSchema S raw \<noteq> Parsed v"
  by (simp add: PeriodForm_formSchema_def Let_def valid_endDate_None
      split: option.splits)

text \<open>What the two callbacks would return if something passed them a context.\<close>

lemma endDate_refinement_with_parent:
  assumes "pe_startDate p = JDate (Some start)"
  shows "endDate_refinement S date (Some \<lparr>parent = Some p\<rparr>) = Inr (start < date)"
  using assms by (simp add: endDate_refinement_def date_gt_def)

lemma enrollmentEndDate_refinement_with_parent:
  assumes "pe_enrollmentStartDate p = JDate (Some start)"
  shows "enrollmentEndDate_refinement S date (Some \<lparr>parent = Some p\<rparr>) = Inr (start < date)"
  using assms by (simp add: enrollmentEndDate_refinement_def date_gt_def)

text \<open>
  Claim C4. The claim says that a period with both dates of a pair present validates
  exactly when the end date is greater than the start date, and that equal dates give
  an issue on the end-date field. The callbacks read \<open>ctx.parent\<close>, and zod passes
  them the date alone: on every valid end date the schema of \<open>endDate\<close> and of
  \<open>enrollmentEndDate\<close> raises a \<open>TypeError\<close>, and so does the validation of the
  scenario's period (end after start), and of the same period with the end date equal to
  the start date.
\<close>

theorem period_date_order_check_raises:
  "period_endDate_schema S (JDate (Some date)) = ZThrow TypeError
   \<and> period_enrollmentEndDate_schema S (JDate (Some date)) = ZThrow TypeError
   \<and> PeriodForm_formSchema S scenario_period = Thrown TypeError
   \<and> PeriodForm_formSchema S (scenario_period\<lparr>pe_endDate := pe_startDate scenario_period\<rparr>)
       = Thrown TypeError"
proof -
  have "PeriodForm_formSchema S scenario_period = Thrown TypeError"
    by (rule PeriodForm_formSchema_raises[where t = 1711929600000])
       (simp add: scenario_period_def)
  moreover have "PeriodForm_formSchema S (scenario_period\<lparr>pe_endDate := pe_startDate scenario_period\<rparr>)
       = Thrown TypeError"
    by (rule PeriodForm_formSchema_raises[where t = 1704067200000])
       (simp add: scenario_period_def)
  ultimately show ?thesis
    by (simp add: period_endDate_raises period_enrollmentEndDate_raises)
qed

text \<open>
  Claim C5. The claim says that a string shorter than the minimum length of its field
  makes validation reject with an error on that field. For the period form the schemas
  of \<open>id\<close> and \<open>name\<close> do report the empty string, but the validation of the freshly
  opened create-mode mapping (both empty, four valid dates) ends in the \<open>TypeError\<close> of
  the end-date callback: no field error is returned, and a click on the submit button,
  once its validation has ended, leaves the form as it was, without any error on a field.
\<close>

theorem period_short_id_not_reported:
  "period_id_schema (JStr []) = ZDirty [] [\<lparr>kind = too_small, message = Some msg_id_obligatorio\<rparr>]
   \<and> period_name_schema (JStr []) = ZDirty [] [\<lparr>kind = too_small, message = Some msg_nombre_3\<rparr>]
   \<and> PeriodForm_formSchema S
        (PeriodForm_defaults 2024 1704067200000 1711929600000 1702598400000 1703203200000)
       = Thrown TypeError
   \<and> PeriodForm_run (PeriodForm_formSchema S) throws None [ClickSubmit, Validated 0]
        (mount None
           (PeriodForm_defaults 2024 1704067200000 1711929600000 1702598400000 1703203200000))
       = mount None
           (PeriodForm_defaults 2024 1704067200000 1711929600000 1702598400000 1703203200000)
   \<and> fieldErrors (mount None
           (PeriodForm_defaults 2024 1704067200000 1711929600000 1702598400000 1703203200000)
           :: (period, period_payload) mounted) = []"
proof -
  have t: "PeriodForm_formSchema S
        (PeriodForm_defaults 2024 1704067200000 1711929600000 1702598400000 1703203200000)
       = Thrown TypeError"
    by (rule PeriodForm_formSchema_raises[where t = 1711929600000])
       (simp add: PeriodForm_defaults_def)
  have r: "PeriodForm_run (PeriodForm_formSchema S) throws None [ClickSubmit, Validated 0]
             (mount None d) = mount None d"
    if "PeriodForm_formSchema S d = Thrown TypeError" for d
    using that by (simp add: PeriodForm_run_def mount_def drop_nth_def)
  have e: "fieldErrors (mount None d :: (period, period_payload) mounted) = []" for d
    by (simp add: mount_def)
  from t r[OF t] e show ?thesis
    by (simp add: period_id_schema_def period_name_schema_def min_length_def)
qed

subsection \<open>The cedula\<close>

lemma set_re_times_class:
  "set (re_times n (re_class P) s)
     = (if n \<le> length s \<and> list_all P (take n s) then {drop n s} else {})"
proof (induction n arbitrary: s)
  case 0
  show ?case by simp
next
  case (Suc n)
  show ?case
  proof (cases s)
    case Nil
    then show ?thesis by (simp add: re_seq_def)
  next
    case (Cons c cs)
    then show ?thesis
      using Suc.IH[of cs] by (simp add: re_seq_def)
  qed
qed

lemma end_of_digits:
  "([] \<in> set (re_between 7 8 (re_class is_digit) ds))
     = ((length ds = 7 \<or> length ds = 8) \<and> list_all is_digit ds)"
proof -
  have "rev [7..<Suc 8] = [8, 7::nat]" by (simp add: upt_rec)
  then have "([] \<in> set (re_between 7 8 (re_class is_digit) ds))
     = ([] \<in> set (re_times 8 (re_class is_digit) ds)
        \<or> [] \<in> set (re_times 7 (re_class is_digit) ds))"
    by (simp add: re_between_def)
  also have "\<dots> = ((length ds = 7 \<or> length ds = 8) \<and> list_all is_digit ds)"
    by (auto simp: set_re_times_class)
  finally show ?thesis .
qed

lemma cedula_regex_iff_format: "cedula_regex s = cedula_format s"
proof (cases s)
  case Nil
  then show ?thesis
    by (simp add: cedula_regex_def cedula_format_def re_test_anchored_def re_seq_def)
next
  case outer: (Cons l s')
  show ?thesis
  proof (cases s')
    case Nil
    with outer show ?thesis
      by (simp add: cedula_regex_def cedula_format_def re_test_anchored_def re_seq_def js_def)
  next
    case (Cons d ds)
    with outer show ?thesis
      using end_of_digits[of ds]
      by (simp add: cedula_regex_def cedula_format_def re_test_anchored_def re_seq_def js_def)
  qed
qed

lemma whitespace_not_in_format:
  assumes "is_whitespace c"
  shows "\<not> is_digit c" and "c \<noteq> of_char CHR ''V''" and "c \<noteq> of_char CHR ''E''"
  using assms by (auto simp: is_whitespace_def is_digit_def)

lemma padded_not_format:
  assumes "is_whitespace c"
  shows "\<not> cedula_format (c # s)" and "\<not> cedula_format (s @ [c])"
proof -
  show "\<not> cedula_format (c # s)"
    using whitespace_not_in_format[OF assms]
    by (auto simp: cedula_format_def split: list.splits)
  show "\<not> cedula_format (s @ [c])"
  proof
    assume f: "cedula_format (s @ [c])"
    then obtain l d ds where s: "s @ [c] = l # d # ds" and len: "length ds = 7 \<or> length ds = 8"
      and dig: "list_all is_digit ds"
      by (auto simp: cedula_format_def split: list.splits)
    from len have "ds \<noteq> []" by auto
    with s have "last ds = c"
      by (metis last.simps last_snoc list.distinct(1))
    with \<open>ds \<noteq> []\<close> dig have "is_digit c"
      by (metis last_in_set list_all_iff)
    with whitespace_not_in_format(1)[OF assms] show False by simp
  qed
qed

lemma professor_cedula_schema_JStr:
  "professor_cedula_schema (JStr s) =
     (if cedula_format s then ZValid s
      else ZDirty s [\<lparr>kind = invalid_string, message = Some msg_prof_cedula\<rparr>])"
  by (simp add: professor_cedula_schema_def z_regex_def cedula_regex_iff_format)

text \<open>
  Claim C8, amended. The \<open>cedula\<close> schema accepts a string exactly when the whole
  string is V or E, a dash and 7 to 8 digits, and reports \<open>invalid_string\<close> with the
  message of the source otherwise. Nothing is trimmed: a string that begins or ends with
  a white-space code unit is rejected.
\<close>

theorem cedula_accepts_exactly_the_format:
  "professor_cedula_schema (JStr s) =
     (if cedula_format s then ZValid s
      else ZDirty s [\<lparr>kind = invalid_string, message = Some msg_prof_cedula\<rparr>])
   \<and> (is_whitespace c \<longrightarrow>
        professor_cedula_schema (JStr (c # s))
          = ZDirty (c # s) [\<lparr>kind = invalid_string, message = Some msg_prof_cedula\<rparr>]
      \<and> professor_cedula_schema (JStr (s @ [c]))
          = ZDirty (s @ [c]) [\<lparr>kind = invalid_string, message = Some msg_prof_cedula\<rparr>])"
  using padded_not_format[of c s] by (simp add: professor_cedula_schema_JStr)

lemma format_V1234567: "cedula_format (js ''V-1234567'')"
  by (simp add: cedula_format_def js_def is_digit_def)

theorem cedula_witness:
  "is_whitespace 32
   \<and> professor_cedula_schema (JStr (js ''V-1234567'')) = ZValid (js ''V-1234567'')
   \<and> professor_cedula_schema (JStr (32 # js ''V-1234567''))
       = ZDirty (32 # js ''V-1234567'') [\<lparr>kind = invalid_string, message = Some msg_prof_cedula\<rparr>]"
  using cedula_accepts_exactly_the_format[of "js ''V-1234567''" 32]
  by (simp add: format_V1234567 is_whitespace_def)

text \<open>
  Claim C8 as stated fails: \<open>V-1234567\<close> matches the pattern, and the same text with a
  space on each side is rejected.
\<close>

theorem cedula_padded_counterexample:
  "cedula_regex (js ''V-1234567'')
   \<and> valid (professor_cedula_schema (JStr (js '' V-1234567 ''))) = None
   \<and> issues_of (professor_cedula_schema (JStr (js '' V-1234567 '')))
       = [\<lparr>kind = invalid_string, message = Some msg_prof_cedula\<rparr>]"
proof -
  have "\<not> cedula_format (js '' V-1234567 '')"
    by (simp add: cedula_format_def js_def)
  then show ?thesis
    by (simp add: professor_cedula_schema_JStr cedula_regex_iff_format format_V1234567)
qed

subsection \<open>The minimum lengths of the professor form\<close>

lemma bind_const_None: "Option.bind a (\<lambda>x. None) = None"
  by (cases a) simp_all

lemma professor_fields_not_thrown:
  "thrown (professor_id_schema a) = None"
  "thrown (professor_firstName_schema a) = None"
  "thrown (professor_lastName_schema a) = None"
  "thrown (professor_cedula_schema a) = None"
  "thrown (professor_department_schema a) = None"
  "thrown (professor_education_schema a) = None"
  "thrown (professor_specialization_schema a) = None"
  "thrown (professor_email_schema isEmail a) = None"
  "thrown (professor_phone_schema a) = None"
  "thrown (professor_hireDateMonth_schema a) = None"
  "thrown (professor_hireDateYear_schema a) = None"
  "thrown (professor_contractType_schema a) = None"
  "thrown (professor_status_schema a) = None"
  by (simp_all add: professor_id_schema_def professor_firstName_schema_def
      professor_lastName_schema_def professor_cedula_schema_def professor_department_schema_def
      professor_education_schema_def professor_specialization_schema_def
      professor_email_schema_def professor_phone_schema_def professor_hireDateMonth_schema_def
      professor_hireDateYear_schema_def professor_contractType_schema_def
      professor_status_schema_def min_length_def z_regex_def thrown_simps)

lemma ProfessorForm_formSchema_not_Thrown: "ProfessorForm_formSchema isEmail raw \<noteq> Thrown e"
  by (simp add: ProfessorForm_formSchema_def Let_def professor_fields_not_thrown
      split: option.splits)

lemma min_length_short:
  assumes "length s < n"
  shows "min_length n msg (ZValid s) = ZDirty s [\<lparr>kind = too_small, message = Some msg\<rparr>]"
  using assms by (simp add: min_length_def)

lemma at_field_ZDirty: "at_field key (ZDirty a is) = map (Pair key) is"
  by (simp add: at_field_def)

lemma professor_short_id:
  assumes "pr_id raw = JStr s" and "length s < 2"
  shows "\<exists>errs. ProfessorForm_formSchema isEmail raw = Failed errs
          \<and> (''id'', \<lparr>kind = too_small, message = Some msg_prof_id\<rparr>) \<in> set errs"
  using assms
  by (simp add: ProfessorForm_formSchema_def Let_def professor_fields_not_thrown
      professor_id_schema_def min_length_short bind_const_None at_field_ZDirty)

lemma professor_short_firstName:
  assumes "pr_firstName raw = JStr s" and "length s < 2"
  shows "\<exists>errs. ProfessorForm_formSchema isEmail raw = Failed errs
          \<and> (''firstName'', \<lparr>kind = too_small, message = Some msg_prof_firstName\<rparr>) \<in> set errs"
  using assms
  by (simp add: ProfessorForm_formSchema_def Let_def professor_fields_not_thrown
      professor_firstName_schema_def min_length_short bind_const_None at_field_ZDirty)

lemma professor_short_lastName:
  assumes "pr_lastName raw = JStr s" and "length s < 2"
  shows "\<exists>errs. ProfessorForm_formSchema isEmail raw = Failed errs
          \<and> (''lastName'', \<lparr>kind = too_small, message = Some msg_prof_lastName\<rparr>) \<in> set errs"
  using assms
  by (simp add: ProfessorForm_formSchema_def Let_def professor_fields_not_thrown
      professor_lastName_schema_def min_length_short bind_const_None at_field_ZDirty)

lemma professor_short_education:
  assumes "pr_education raw = JStr s" and "length s < 2"
  shows "\<exists>errs. ProfessorForm_formSchema isEmail raw = Failed errs
          \<and> (''education'', \<lparr>kind = too_small, message = Some msg_prof_education\<rparr>) \<in> set errs"
  using assms
  by (simp add: ProfessorForm_formSchema_def Let_def professor_fields_not_thrown
      professor_education_schema_def min_length_short bind_const_None at_field_ZDirty)

lemma professor_short_specialization:
  assumes "pr_specialization raw = JStr s" and "length s < 2"
  shows "\<exists>errs. ProfessorForm_formSchema isEmail raw = Failed errs
          \<and> (''specialization'', \<lparr>kind = too_small, message = Some msg_prof_specialization\<rparr>)
              \<in> set errs"
  using assms
  by (simp add: ProfessorForm_formSchema_def Let_def professor_fields_not_thrown
      professor_specialization_schema_def min_length_short bind_const_None at_field_ZDirty)

lemma professor_short_phone:
  assumes "pr_phone raw = JStr s" and "length s < 10"
  shows "\<exists>errs. ProfessorForm_formSchema isEmail raw = Failed errs
          \<and> (''phone'', \<lparr>kind = too_small, message = Some msg_prof_phone\<rparr>) \<in> set errs"
  using assms
  by (simp add: ProfessorForm_formSchema_def Let_def professor_fields_not_thrown
      professor_phone_schema_def min_length_short bind_const_None at_field_ZDirty)

subsection \<open>The hire date\<close>

lemma num_of_snoc: "num_of (xs @ [d]) = 10 * num_of xs + (d - of_char CHR ''0'')"
  by simp

lemma digits_of_props:
  "n < k \<Longrightarrow> num_of (digits_of k n) = n \<and> list_all is_digit (digits_of k n)"
proof (induction k arbitrary: n)
  case 0
  then show ?case by simp
next
  case (Suc k)
  show ?case
  proof (cases "n < 10")
    case True
    then show ?thesis by (simp add: is_digit_def)
  next
    case False
    with Suc.prems have "n div 10 < k" by simp
    from Suc.IH[OF this] False show ?thesis
      by (simp add: is_digit_def del: num_of.simps add: num_of_snoc)
  qed
qed

lemma toString_props: "num_of (toString n) = n" "list_all is_digit (toString n)"
  using digits_of_props[of n "Suc n"] by (simp_all add: toString_def)

lemma hireDateMonth_options_range:
  assumes "x \<in> set hireDateMonth_options"
  shows "num_of x < 12 \<and> list_all is_digit x"
  using assms toString_props by (auto simp: hireDateMonth_options_def simp del: num_of.simps)

lemma hireDateYear_options_range:
  assumes "x \<in> set (hireDateYear_options currentYear)"
  shows "1990 \<le> num_of x \<and> int (num_of x) \<le> currentYear \<and> list_all is_digit x"
proof -
  from assms obtain i where i: "i < nat (currentYear - 1990 + 1)"
      and x: "x = toString (nat (currentYear - int i))"
    by (auto simp: hireDateYear_options_def)
  from i have "1990 \<le> nat (currentYear - int i)" "int (nat (currentYear - int i)) \<le> currentYear"
    by linarith+
  with x toString_props show ?thesis by (simp del: num_of.simps)
qed

lemma not_offered:
  "js ''13'' \<notin> set hireDateMonth_options"
  "js ''abc'' \<notin> set hireDateMonth_options"
  "js ''1800'' \<notin> set (hireDateYear_options currentYear)"
  "js ''abc'' \<notin> set (hireDateYear_options currentYear)"
proof -
  have n13: "num_of (js ''13'') = 13" and n1800: "num_of (js ''1800'') = 1800"
    and abc: "\<not> list_all is_digit (js ''abc'')"
    by (simp_all add: js_def is_digit_def)
  show "js ''13'' \<notin> set hireDateMonth_options"
    using hireDateMonth_options_range[of "js ''13''"] n13 by auto
  show "js ''abc'' \<notin> set hireDateMonth_options"
    using hireDateMonth_options_range[of "js ''abc''"] abc by auto
  show "js ''1800'' \<notin> set (hireDateYear_options currentYear)"
    using hireDateYear_options_range[of "js ''1800''" currentYear] n1800 by auto
  show "js ''abc'' \<notin> set (hireDateYear_options currentYear)"
    using hireDateYear_options_range[of "js ''abc''" currentYear] abc by auto
qed

lemma fst_at_field: "fst ` set (at_field key r) \<subseteq> {key}"
  by (auto simp: at_field_def)

lemma at_field_ZValid: "at_field key (ZValid a) = []"
  by (simp add: at_field_def)

lemma ProfessorForm_errors_skip_hire_date:
  assumes "pr_hireDateMonth raw = JStr m" and "pr_hireDateYear raw = JStr y"
    and "ProfessorForm_formSchema isEmail raw = Failed errs"
  shows "''hireDateMonth'' \<notin> fst ` set errs \<and> ''hireDateYear'' \<notin> fst ` set errs"
proof -
  have "errs =
      at_field ''id'' (professor_id_schema (pr_id raw))
      @ at_field ''firstName'' (professor_firstName_schema (pr_firstName raw))
      @ at_field ''lastName'' (professor_lastName_schema (pr_lastName raw))
      @ at_field ''cedula'' (professor_cedula_schema (pr_cedula raw))
      @ at_field ''department'' (professor_department_schema (pr_department raw))
      @ at_field ''education'' (professor_education_schema (pr_education raw))
      @ at_field ''specialization'' (professor_specialization_schema (pr_specialization raw))
      @ at_field ''email'' (professor_email_schema isEmail (pr_email raw))
      @ at_field ''phone'' (professor_phone_schema (pr_phone raw))
      @ at_field ''contractType'' (professor_contractType_schema (pr_contractType raw))
      @ at_field ''status'' (professor_status_schema (pr_status raw))"
    using assms
    by (simp add: ProfessorForm_formSchema_def Let_def professor_fields_not_thrown
        professor_hireDateMonth_schema_def professor_hireDateYear_schema_def at_field_ZValid
        split: option.splits)
  then show ?thesis
    using fst_at_field by (fastforce simp: image_Un)
qed

lemma ProfessorForm_parsed_any_hire_date:
  assumes "ProfessorForm_formSchema isEmail raw = Parsed v"
  shows "ProfessorForm_formSchema isEmail (raw\<lparr>pr_hireDateMonth := JStr m, pr_hireDateYear := JStr y\<rparr>)
           = Parsed (v\<lparr>pr_hireDateMonth := JStr m, pr_hireDateYear := JStr y\<rparr>)"
  using assms
  by (auto simp: ProfessorForm_formSchema_def Let_def professor_fields_not_thrown
        professor_hireDateMonth_schema_def professor_hireDateYear_schema_def
        split: option.splits Option.bind_splits)

lemma sample_professor_parses:
  "ProfessorForm_formSchema sample_isEmail sample_professor = Parsed sample_professor"
proof -
  have c: "cedula_format (js ''V-12345678'')"
    by (simp add: cedula_format_def js_def is_digit_def)
  have e: "sample_isEmail (js ''ana@uptma.edu'')"
    by (simp add: sample_isEmail_def js_def)
  have n: "js ''por_hora'' \<noteq> js ''tiempo_completo''" "js ''por_hora'' \<noteq> js ''tiempo_parcial''"
    by (simp_all add: js_def)
  have l: "length (js ''PROF-001'') = 8" "length (js ''Ana'') = 3" "length (js ''Rojas'') = 5"
    "length (js ''Doctor'') = 6" "length (js ''Redes'') = 5" "length (js ''+58 412 1234567'') = 15"
    by (simp_all add: js_def)
  show ?thesis
    by (simp add: ProfessorForm_formSchema_def Let_def sample_professor_def
        professor_id_schema_def professor_firstName_schema_def
        professor_lastName_schema_def professor_cedula_schema_def professor_department_schema_def
        professor_education_schema_def professor_specialization_schema_def
        professor_email_schema_def professor_phone_schema_def professor_hireDateMonth_schema_def
        professor_hireDateYear_schema_def professor_contractType_schema_def
        professor_status_schema_def min_length_def z_regex_def cedula_regex_iff_format c e n l)
qed

text \<open>
  Claim C10. The schemas of \<open>hireDateMonth\<close> and \<open>hireDateYear\<close> accept every string
  unchanged. With any two strings in these fields, the errors of the professor form
  never mention them, and an entity that validates still validates after the two
  fields are replaced by any strings. The selects do not offer \<open>13\<close> or \<open>abc\<close> as a
  month, nor \<open>1800\<close> or \<open>abc\<close> as a year, whatever the current year.
\<close>

theorem hire_date_fields_accept_any_string:
  "professor_hireDateMonth_schema (JStr m) = ZValid m
   \<and> professor_hireDateYear_schema (JStr y) = ZValid y
   \<and> (\<forall>errs. ProfessorForm_formSchema isEmail
                (raw\<lparr>pr_hireDateMonth := JStr m, pr_hireDateYear := JStr y\<rparr>) = Failed errs
         \<longrightarrow> ''hireDateMonth'' \<notin> fst ` set errs \<and> ''hireDateYear'' \<notin> fst ` set errs)
   \<and> (\<forall>v. ProfessorForm_formSchema isEmail raw = Parsed v
         \<longrightarrow> ProfessorForm_formSchema isEmail
                (raw\<lparr>pr_hireDateMonth := JStr m, pr_hireDateYear := JStr y\<rparr>)
              = Parsed (v\<lparr>pr_hireDateMonth := JStr m, pr_hireDateYear := JStr y\<rparr>))
   \<and> js ''13'' \<notin> set hireDateMonth_options
   \<and> js ''abc'' \<notin> set hireDateMonth_options
   \<and> js ''1800'' \<notin> set (hireDateYear_options currentYear)
   \<and> js ''abc'' \<notin> set (hireDateYear_options currentYear)"
proof -
  have a: "professor_hireDateMonth_schema (JStr m) = ZValid m"
    "professor_hireDateYear_schema (JStr y) = ZValid y"
    by (simp_all add: professor_hireDateMonth_schema_def professor_hireDateYear_schema_def)
  have b: "''hireDateMonth'' \<notin> fst ` set errs \<and> ''hireDateYear'' \<notin> fst ` set errs"
    if "ProfessorForm_formSchema isEmail
                (raw\<lparr>pr_hireDateMonth := JStr m, pr_hireDateYear := JStr y\<rparr>) = Failed errs" for errs
    using ProfessorForm_errors_skip_hire_date[OF _ _ that] by simp
  from a b ProfessorForm_parsed_any_hire_date not_offered show ?thesis by blast
qed

theorem hire_date_witness:
  "ProfessorForm_formSchema sample_isEmail sample_professor = Parsed sample_professor
   \<and> ProfessorForm_formSchema sample_isEmail
        (sample_professor\<lparr>pr_hireDateMonth := JStr (js ''abc''), pr_hireDateYear := JStr (js ''abc'')\<rparr>)
      = Parsed (sample_professor\<lparr>pr_hireDateMonth := JStr (js ''abc''),
          pr_hireDateYear := JStr (js ''abc'')\<rparr>)
   \<and> ProfessorForm_formSchema sample_isEmail
        (sample_professor\<lparr>pr_id := JStr [], pr_hireDateMonth := JStr (js ''13''),
           pr_hireDateYear := JStr (js ''1800'')\<rparr>)
      = Failed [(''id'', \<lparr>kind = too_small, message = Some msg_prof_id\<rparr>)]"
proof -
  have c: "cedula_format (js ''V-12345678'')"
    by (simp add: cedula_format_def js_def is_digit_def)
  have e: "sample_isEmail (js ''ana@uptma.edu'')"
    by (simp add: sample_isEmail_def js_def)
  have n: "js ''por_hora'' \<noteq> js ''tiempo_completo''" "js ''por_hora'' \<noteq> js ''tiempo_parcial''"
    by (simp_all add: js_def)
  have l: "length (js ''Ana'') = 3" "length (js ''Rojas'') = 5"
    "length (js ''Doctor'') = 6" "length (js ''Redes'') = 5" "length (js ''+58 412 1234567'') = 15"
    by (simp_all add: js_def)
  have f: "ProfessorForm_formSchema sample_isEmail
        (sample_professor\<lparr>pr_id := JStr [], pr_hireDateMonth := JStr (js ''13''),
           pr_hireDateYear := JStr (js ''1800'')\<rparr>)
      = Failed [(''id'', \<lparr>kind = too_small, message = Some msg_prof_id\<rparr>)]"
    by (simp add: ProfessorForm_formSchema_def Let_def sample_professor_def
        professor_id_schema_def professor_firstName_schema_def
        professor_lastName_schema_def professor_cedula_schema_def professor_department_schema_def
        professor_education_schema_def professor_specialization_schema_def
        professor_email_schema_def professor_phone_schema_def professor_hireDateMonth_schema_def
        professor_hireDateYear_schema_def professor_contractType_schema_def
        professor_status_schema_def min_length_def z_regex_def cedula_regex_iff_format c e n l
        at_field_def)
  show ?thesis
    using hire_date_fields_accept_any_string[of "js ''abc''" "js ''abc''" sample_isEmail
        sample_professor 2026]
      hire_date_fields_accept_any_string[of "js ''13''" "js ''1800''" sample_isEmail
        "sample_professor\<lparr>pr_id := JStr []\<rparr>" 2026]
      sample_professor_parses f
    by simp
qed


section \<open>Properties of the mounted dialog\<close>

lemma emit_mounted:
  "pending (emit e st) = pending st"
  "validating (emit e st) = validating st"
  "buttonsDisabled (emit e st) = buttonsDisabled st"
  by (simp_all add: emit_def)

lemma PeriodForm_finish_mounted:
  "pending (PeriodForm_handleSubmit_finish ip v outcome st) = pending st"
  "validating (PeriodForm_handleSubmit_finish ip v outcome st) = validating st"
  "buttonsDisabled (PeriodForm_handleSubmit_finish ip v outcome st) = buttonsDisabled st"
  by (cases outcome rule: outcome_cases;
      simp add: PeriodForm_handleSubmit_finish_def Let_def emit_def form_reset_def)+

lemma ProfessorForm_finish_mounted:
  "pending (ProfessorForm_handleSubmit_finish ip v outcome st) = pending st"
  "validating (ProfessorForm_handleSubmit_finish ip v outcome st) = validating st"
  "buttonsDisabled (ProfessorForm_handleSubmit_finish ip v outcome st) = buttonsDisabled st"
  by (cases outcome rule: outcome_cases;
      simp add: ProfessorForm_handleSubmit_finish_def Let_def emit_def form_reset_def)+

lemma PeriodForm_start_mounted:
  "pending (PeriodForm_handleSubmit_start v st) = pending st"
  "validating (PeriodForm_handleSubmit_start v st) = validating st"
  "buttonsDisabled (PeriodForm_handleSubmit_start v st) = buttonsDisabled st"
  by (simp_all add: PeriodForm_handleSubmit_start_def emit_def)

lemma ProfessorForm_start_mounted:
  "pending (ProfessorForm_handleSubmit_start v st) = pending st"
  "validating (ProfessorForm_handleSubmit_start v st) = validating st"
  "buttonsDisabled (ProfessorForm_handleSubmit_start v st) = buttonsDisabled st"
  by (simp_all add: ProfessorForm_handleSubmit_start_def emit_def)

lemma gateway_calls_simps:
  "gateway_calls (emit e st) = gateway_calls st + (if is_SaveCall e then 1 else 0)"
  "gateway_calls (st\<lparr>fieldErrors := errs\<rparr>) = gateway_calls st"
  "gateway_calls (st\<lparr>pending := ps\<rparr>) = gateway_calls st"
  "gateway_calls (st\<lparr>validating := vs\<rparr>) = gateway_calls st"
  "gateway_calls (st\<lparr>buttonsDisabled := d\<rparr>) = gateway_calls st"
  "gateway_calls (st\<lparr>isSubmitting := b\<rparr>) = gateway_calls st"
  "gateway_calls (st\<lparr>fieldValues := v\<rparr>) = gateway_calls st"
  by (simp_all add: gateway_calls_def emit_def)

lemma gateway_calls_start:
  "gateway_calls (PeriodForm_handleSubmit_start pv ps) = Suc (gateway_calls ps)"
  "gateway_calls (ProfessorForm_handleSubmit_start fv fs) = Suc (gateway_calls fs)"
  by (simp_all add: PeriodForm_handleSubmit_start_def ProfessorForm_handleSubmit_start_def
      gateway_calls_def emit_def)

lemma length_drop_nth: "i < length xs \<Longrightarrow> length (drop_nth i xs) = length xs - 1"
  by (auto simp: drop_nth_def)

lemma drop_nth_single: "drop_nth 0 [x] = []"
  by (simp add: drop_nth_def)

lemma PeriodForm_run_append:
  "PeriodForm_run resolver throws ip (xs @ ys) st
     = PeriodForm_run resolver throws ip ys (PeriodForm_run resolver throws ip xs st)"
  by (simp add: PeriodForm_run_def)

lemma ProfessorForm_run_append:
  "ProfessorForm_run resolver throws ip (xs @ ys) st
     = ProfessorForm_run resolver throws ip ys (ProfessorForm_run resolver throws ip xs st)"
  by (simp add: ProfessorForm_run_def)

text \<open>Once a render has disabled the buttons, clicks on them change nothing.\<close>

lemma disabled_buttons_ignore_clicks:
  assumes "buttonsDisabled st"
  shows "PeriodForm_step resolver throws ip ClickSubmit st = st"
    and "PeriodForm_step resolver throws ip ClickCancel st = st"
  using assms by simp_all

lemma disabled_buttons_ignore_clicks_professor:
  assumes "buttonsDisabled st"
  shows "ProfessorForm_step resolver throws ip ClickSubmit st = st"
    and "ProfessorForm_step resolver throws ip ClickCancel st = st"
  using assms by simp_all

text \<open>
  \<open>handleSubmit\<close> itself has no test of the flag: a validation that ends with an
  entity starts a call, whatever the flag is and however many calls are pending.
\<close>

lemma handleSubmit_has_no_guard:
  assumes "i < length (validating st)" and "resolver (validating st ! i) = Parsed v"
    and "\<not> throws v"
  shows "pending (ProfessorForm_step resolver throws ip (Validated i) st) = pending st @ [v]"
    and "gateway_calls (ProfessorForm_step resolver throws ip (Validated i) st)
           = Suc (gateway_calls st)"
  using assms
  by (simp_all add: Let_def ProfessorForm_start_mounted gateway_calls_start gateway_calls_simps)

subsection \<open>A user who waits for the page\<close>

lemma at_rest_mount: "at_rest (mount ip fresh)"
  by (simp add: at_rest_def mount_def Let_def)

lemma PeriodForm_settled_at_rest:
  assumes "at_rest st"
  shows "at_rest (PeriodForm_run resolver throws ip (settled ev) st)"
proof -
  from assms have v: "validating st = []" and b: "buttonsDisabled st = isSubmitting st"
    and p: "length (pending st) = (if isSubmitting st then 1 else 0)"
    by (simp_all add: at_rest_def)
  show ?thesis
  proof (cases ev)
    case ClickSubmit
    show ?thesis
    proof (cases "isSubmitting st")
      case True
      with ClickSubmit v b p show ?thesis
        by (simp add: PeriodForm_run_def settled_def at_rest_def)
    next
      case False
      with p have e: "pending st = []" by simp
      show ?thesis
      proof (cases "resolver (fieldValues st)")
        case (Parsed ent)
        with ClickSubmit False v b e show ?thesis
          by (simp add: PeriodForm_run_def settled_def at_rest_def drop_nth_single Let_def
              PeriodForm_start_mounted PeriodForm_start_simps PeriodForm_finish_mounted
              PeriodForm_finish_flag)
      next
        case (Failed errs)
        with ClickSubmit False v b e show ?thesis
          by (simp add: PeriodForm_run_def settled_def at_rest_def drop_nth_single)
      next
        case (Thrown x)
        with ClickSubmit False v b e show ?thesis
          by (simp add: PeriodForm_run_def settled_def at_rest_def drop_nth_single)
      qed
    qed
  next
    case ClickCancel
    with v b p show ?thesis
      by (cases "isSubmitting st")
         (simp_all add: PeriodForm_run_def settled_def at_rest_def emit_def)
  next
    case DismissDialog
    with v b p show ?thesis
      by (cases "isSubmitting st")
         (simp_all add: PeriodForm_run_def settled_def at_rest_def emit_def)
  next
    case (Edit x)
    with v b p show ?thesis
      by (cases "isSubmitting st") (simp_all add: PeriodForm_run_def settled_def at_rest_def)
  next
    case Render
    with v b p show ?thesis
      by (cases "isSubmitting st") (simp_all add: PeriodForm_run_def settled_def at_rest_def)
  next
    case (Validated i)
    with v b p show ?thesis
      by (cases "isSubmitting st") (simp_all add: PeriodForm_run_def settled_def at_rest_def)
  next
    case (Settle i outcome)
    show ?thesis
    proof (cases "i < length (pending st)")
      case True
      with p have "length (pending st) = 1" by (auto split: if_splits)
      with Settle True v show ?thesis
        by (simp add: PeriodForm_run_def settled_def at_rest_def PeriodForm_finish_mounted
            PeriodForm_finish_flag length_drop_nth)
    next
      case False
      with Settle v b p show ?thesis
        by (cases "isSubmitting st") (simp_all add: PeriodForm_run_def settled_def at_rest_def)
    qed
  qed
qed

lemma ProfessorForm_settled_at_rest:
  assumes "at_rest st"
  shows "at_rest (ProfessorForm_run resolver throws ip (settled ev) st)"
proof -
  from assms have v: "validating st = []" and b: "buttonsDisabled st = isSubmitting st"
    and p: "length (pending st) = (if isSubmitting st then 1 else 0)"
    by (simp_all add: at_rest_def)
  show ?thesis
  proof (cases ev)
    case ClickSubmit
    show ?thesis
    proof (cases "isSubmitting st")
      case True
      with ClickSubmit v b p show ?thesis
        by (simp add: ProfessorForm_run_def settled_def at_rest_def)
    next
      case False
      with p have e: "pending st = []" by simp
      show ?thesis
      proof (cases "resolver (fieldValues st)")
        case (Parsed ent)
        with ClickSubmit False v b e show ?thesis
          by (simp add: ProfessorForm_run_def settled_def at_rest_def drop_nth_single Let_def
              ProfessorForm_start_mounted ProfessorForm_start_simps ProfessorForm_finish_mounted
              ProfessorForm_finish_flag)
      next
        case (Failed errs)
        with ClickSubmit False v b e show ?thesis
          by (simp add: ProfessorForm_run_def settled_def at_rest_def drop_nth_single)
      next
        case (Thrown x)
        with ClickSubmit False v b e show ?thesis
          by (simp add: ProfessorForm_run_def settled_def at_rest_def drop_nth_single)
      qed
    qed
  next
    case ClickCancel
    with v b p show ?thesis
      by (cases "isSubmitting st")
         (simp_all add: ProfessorForm_run_def settled_def at_rest_def emit_def)
  next
    case DismissDialog
    with v b p show ?thesis
      by (cases "isSubmitting st")
         (simp_all add: ProfessorForm_run_def settled_def at_rest_def emit_def)
  next
    case (Edit x)
    with v b p show ?thesis
      by (cases "isSubmitting st") (simp_all add: ProfessorForm_run_def settled_def at_rest_def)
  next
    case Render
    with v b p show ?thesis
      by (cases "isSubmitting st") (simp_all add: ProfessorForm_run_def settled_def at_rest_def)
  next
    case (Validated i)
    with v b p show ?thesis
      by (cases "isSubmitting st") (simp_all add: ProfessorForm_run_def settled_def at_rest_def)
  next
    case (Settle i outcome)
    show ?thesis
    proof (cases "i < length (pending st)")
      case True
      with p have "length (pending st) = 1" by (auto split: if_splits)
      with Settle True v show ?thesis
        by (simp add: ProfessorForm_run_def settled_def at_rest_def ProfessorForm_finish_mounted
            ProfessorForm_finish_flag length_drop_nth)
    next
      case False
      with Settle v b p show ?thesis
        by (cases "isSubmitting st") (simp_all add: ProfessorForm_run_def settled_def at_rest_def)
    qed
  qed
qed

text \<open>
  What the guard does achieve: when every action of the user is followed by its
  validation and a render before the next one, at most one call is pending, and exactly
  while the flag is set.
\<close>

lemma unhurried_one_call:
  assumes "at_rest st"
  shows "at_rest (PeriodForm_run resolver throws ip (concat (map settled evs)) st)"
  using assms
proof (induction evs arbitrary: st)
  case Nil
  then show ?case by (simp add: PeriodForm_run_def)
next
  case (Cons ev evs)
  from Cons.IH[OF PeriodForm_settled_at_rest[OF Cons.prems]] show ?case
    by (simp add: PeriodForm_run_append)
qed

lemma unhurried_one_call_professor:
  assumes "at_rest st"
  shows "at_rest (ProfessorForm_run resolver throws ip (concat (map settled evs)) st)"
  using assms
proof (induction evs arbitrary: st)
  case Nil
  then show ?case by (simp add: ProfessorForm_run_def)
next
  case (Cons ev evs)
  from Cons.IH[OF ProfessorForm_settled_at_rest[OF Cons.prems]] show ?case
    by (simp add: ProfessorForm_run_append)
qed

subsection \<open>Two clicks before the first validation ends\<close>

text \<open>
  Claim C3. The claim says that at most one call of the persistence function is in
  flight, since a second submit while the flag is set does nothing. In the professor
  form holding a valid mapping, two clicks on the submit button before the first
  validation has ended are both accepted (the buttons are disabled only by the render
  that follows \<open>setIsSubmitting(true)\<close>, and \<open>handleSubmit\<close> tests nothing): both
  validations end with the entity, \<open>saveProfessor\<close> is called twice, and two calls are
  pending with the flag set.
\<close>

theorem two_rapid_clicks_make_two_calls:
  "pending (ProfessorForm_run (ProfessorForm_formSchema sample_isEmail) (\<lambda>p. False) None
      [ClickSubmit, ClickSubmit, Validated 0, Validated 0] (mount None sample_professor))
     = [sample_professor, sample_professor]
   \<and> gateway_calls (ProfessorForm_run (ProfessorForm_formSchema sample_isEmail) (\<lambda>p. False) None
      [ClickSubmit, ClickSubmit, Validated 0, Validated 0] (mount None sample_professor)) = 2
   \<and> effects (ProfessorForm_run (ProfessorForm_formSchema sample_isEmail) (\<lambda>p. False) None
      [ClickSubmit, ClickSubmit, Validated 0, Validated 0] (mount None sample_professor))
     = [SaveCall sample_professor, SaveCall sample_professor]
   \<and> isSubmitting (ProfessorForm_run (ProfessorForm_formSchema sample_isEmail) (\<lambda>p. False) None
      [ClickSubmit, ClickSubmit, Validated 0, Validated 0] (mount None sample_professor))"
  by (simp add: ProfessorForm_run_def mount_def drop_nth_def Let_def sample_professor_parses
      ProfessorForm_handleSubmit_start_def emit_def gateway_calls_def)

subsection \<open>Submit attempts that reach no persistence function\<close>

text \<open>The period form never reaches its persistence function.\<close>

lemma PeriodForm_never_saves:
  "gateway_calls (PeriodForm_run (PeriodForm_formSchema S) throws ip evs (mount ip fresh)) = 0
   \<and> pending (PeriodForm_run (PeriodForm_formSchema S) throws ip evs (mount ip fresh)) = []"
proof -
  have step: "gateway_calls (PeriodForm_step (PeriodForm_formSchema S) throws ip ev st) = 0
      \<and> pending (PeriodForm_step (PeriodForm_formSchema S) throws ip ev st) = []"
    if "gateway_calls st = 0 \<and> pending st = []" for ev st
  proof (cases ev)
    case (Validated i)
    with that PeriodForm_formSchema_never_parses[of S "validating st ! i"] show ?thesis
      by (cases "PeriodForm_formSchema S (validating st ! i)")
         (auto simp: gateway_calls_simps Let_def)
  qed (use that in \<open>auto simp: gateway_calls_simps emit_mounted\<close>)
  have run: "gateway_calls (PeriodForm_run (PeriodForm_formSchema S) throws ip evs st) = 0
      \<and> pending (PeriodForm_run (PeriodForm_formSchema S) throws ip evs st) = []"
    if "gateway_calls st = 0 \<and> pending st = []" for st
    using that
  proof (induction evs arbitrary: st)
    case Nil
    then show ?case by (simp add: PeriodForm_run_def)
  next
    case (Cons ev evs)
    from Cons.IH[OF step[OF Cons.prems]] show ?case by (simp add: PeriodForm_run_def)
  qed
  show ?thesis
    by (rule run) (simp add: gateway_calls_def mount_def Let_def)
qed

text \<open>A click calls nothing by itself, and a validation without an entity calls nothing.\<close>

lemma no_entity_no_call:
  assumes "\<And>v. resolver (validating st ! i) \<noteq> Parsed v"
  shows "gateway_calls (PeriodForm_step resolver throws ip (Validated i) st) = gateway_calls st"
    and "gateway_calls (PeriodForm_step resolver throws ip ClickSubmit st) = gateway_calls st"
  using assms
  by (cases "resolver (validating st ! i)"; auto simp: gateway_calls_simps Let_def)+

lemma no_entity_no_call_professor:
  assumes "\<And>v. resolver (validating st ! i) \<noteq> Parsed v"
  shows "gateway_calls (ProfessorForm_step resolver throws ip (Validated i) st) = gateway_calls st"
    and "gateway_calls (ProfessorForm_step resolver throws ip ClickSubmit st) = gateway_calls st"
  using assms
  by (cases "resolver (validating st ! i)"; auto simp: gateway_calls_simps Let_def)+

text \<open>A rejected professor form shows the issues and calls nothing.\<close>

lemma ProfessorForm_rejected_submit:
  assumes "\<not> buttonsDisabled st" and "validating st = []"
    and "ProfessorForm_formSchema isEmail (fieldValues st) = Failed errs"
  shows "ProfessorForm_run (ProfessorForm_formSchema isEmail) throws ip
           [ClickSubmit, Validated 0] st = st\<lparr>fieldErrors := errs\<rparr>"
proof -
  from assms(2) have "st\<lparr>validating := []\<rparr> = st" by simp
  with assms show ?thesis
    by (simp add: ProfessorForm_run_def drop_nth_single)
qed

end
